theory Spec2Isabelle
  imports Complex_Main
begin

section \<open>Conventions of the embedding\<close>

text \<open>
  The Python sources are embedded shallowly. Text is a \<^typ>\<open>string\<close> (the UTF-8 bytes of
  the Python string), Python integers are \<^typ>\<open>int\<close>, and the clock and the vectors are
  \<^typ>\<open>real\<close> numbers; the single-precision arithmetic of the similarity score is
  modelled with its rounding. Every function of the source that reads
  \<^verbatim>\<open>time.time()\<close> takes its readings as arguments. An exception is a value: a
  function that can raise returns \<open>exn + 'a\<close>, with \<open>Inl\<close> for the exception.
\<close>

datatype exn = PyException string

fun exn_str :: "exn \<Rightarrow> string" where
  "exn_str (PyException m) = m"

subsection \<open>Python slices\<close>

text \<open>
  \<^verbatim>\<open>xs[i:j]\<close>: a negative bound counts from the end, and both bounds are clamped to the
  list. \<^verbatim>\<open>xs[i:]\<close> is the slice up to the end.
\<close>

definition py_bound :: "nat \<Rightarrow> int \<Rightarrow> nat" where
  "py_bound n i = (if i < 0 then nat (max 0 (int n + i)) else min (nat i) n)"

definition py_slice :: "'a list \<Rightarrow> int \<Rightarrow> int \<Rightarrow> 'a list" where
  "py_slice xs i j =
     (let lo = py_bound (length xs) i; hi = py_bound (length xs) j
      in take (hi - lo) (drop lo xs))"

definition py_slice_from :: "'a list \<Rightarrow> int \<Rightarrow> 'a list" where
  "py_slice_from xs i = drop (py_bound (length xs) i) xs"

section \<open>Session memory (memory/session\_memory.py)\<close>

record message =
  role :: string
  content :: string
  timestamp :: real

record session =
  session_id :: string
  messages :: "message list"
  created_at :: real
  last_activity :: real

text \<open>
  \<^verbatim>\<open>Session.add_message\<close>, with the cap \<^verbatim>\<open>MAX_SESSION_MESSAGES\<close> as \<open>cap\<close> and the two
  clock readings \<open>t_msg\<close> (the message's timestamp) and \<open>t_act\<close> (the new
  \<^verbatim>\<open>last_activity\<close>). The list is never empty after the append, so \<^verbatim>\<open>self.messages[0]\<close>
  is its head.
\<close>

definition add_message :: "int \<Rightarrow> real \<Rightarrow> real \<Rightarrow> string \<Rightarrow> string \<Rightarrow> session \<Rightarrow> session" where
  "add_message cap t_msg t_act r c s =
     (let msgs = messages s @ [\<lparr>role = r, content = c, timestamp = t_msg\<rparr>];
          s1 = s\<lparr>messages := msgs, last_activity := t_act\<rparr>
      in if int (length msgs) > cap
         then s1\<lparr>messages := [hd msgs] @ py_slice_from msgs (- (cap - 1))\<rparr>
         else s1)"

text \<open>\<^verbatim>\<open>Session.get_recent_messages\<close>: \<^verbatim>\<open>self.messages[-limit:] if self.messages else []\<close>.\<close>

definition get_recent_messages :: "int \<Rightarrow> session \<Rightarrow> message list" where
  "get_recent_messages limit s =
     (if messages s \<noteq> [] then py_slice_from (messages s) (- limit) else [])"

text \<open>\<^verbatim>\<open>Session.is_expired\<close>, with \<^verbatim>\<open>SESSION_TIMEOUT\<close> as \<open>timeout\<close> and the clock reading \<open>now\<close>.\<close>

definition is_expired :: "int \<Rightarrow> real \<Rightarrow> session \<Rightarrow> bool" where
  "is_expired timeout now s = (now - last_activity s > real_of_int timeout)"

text \<open>The manager's only field is the dictionary of sessions.\<close>

type_synonym session_manager = "string \<rightharpoonup> session"

definition remove_session :: "string \<Rightarrow> session_manager \<Rightarrow> session_manager" where
  "remove_session sid mgr = (if sid \<in> dom mgr then mgr(sid := None) else mgr)"

text \<open>
  \<^verbatim>\<open>SessionManager.get_session\<close>. A \<^verbatim>\<open>Session\<close> object is always truthy, so
  \<^verbatim>\<open>if session and session.is_expired()\<close> tests presence, then expiry.
\<close>

definition get_session ::
  "int \<Rightarrow> real \<Rightarrow> string \<Rightarrow> session_manager \<Rightarrow> session option \<times> session_manager" where
  "get_session timeout now sid mgr =
     (case mgr sid of
        None \<Rightarrow> (None, mgr)
      | Some s \<Rightarrow>
          if is_expired timeout now s then (None, remove_session sid mgr)
          else (Some s, mgr))"

definition create_session :: "real \<Rightarrow> string \<Rightarrow> session_manager \<Rightarrow> session \<times> session_manager" where
  "create_session now sid mgr =
     (let s = \<lparr>session_id = sid, messages = [], created_at = now, last_activity = now\<rparr>
      in (s, mgr(sid \<mapsto> s)))"

text \<open>
  \<^verbatim>\<open>SessionManager.get_or_create_session\<close>: \<open>now\<close> is the reading of the expiry check,
  \<open>now'\<close> the one \<^verbatim>\<open>create_session\<close> takes when it runs.
\<close>

definition get_or_create_session ::
  "int \<Rightarrow> real \<Rightarrow> real \<Rightarrow> string \<Rightarrow> session_manager \<Rightarrow> session \<times> session_manager" where
  "get_or_create_session timeout now now' sid mgr =
     (case get_session timeout now sid mgr of
        (Some s, mgr1) \<Rightarrow> (s, mgr1)
      | (None, mgr1) \<Rightarrow> create_session now' sid mgr1)"

text \<open>
  Appending a sequence of messages to a session, one \<^verbatim>\<open>add_message\<close> call each; an
  entry is (timestamp reading, activity reading, role, content).
\<close>

type_synonym append_call = "real \<times> real \<times> string \<times> string"

fun add_messages :: "int \<Rightarrow> append_call list \<Rightarrow> session \<Rightarrow> session" where
  "add_messages cap [] s = s"
| "add_messages cap ((t, t', r, c) # rest) s = add_messages cap rest (add_message cap t t' r c s)"

definition message_of :: "append_call \<Rightarrow> message" where
  "message_of a = (case a of (t, t', r, c) \<Rightarrow> \<lparr>role = r, content = c, timestamp = t\<rparr>)"

text \<open>
  The window the trimming is meant to keep: the whole list up to the cap, else the first
  element and the last \<open>cap - 1\<close>.
\<close>

definition trimmed :: "nat \<Rightarrow> 'a list \<Rightarrow> 'a list" where
  "trimmed cap xs = (if length xs \<le> cap then xs else hd xs # drop (length xs - (cap - 1)) xs)"

section \<open>Configuration (config.py)\<close>

text \<open>
  The module reads its integer settings with \<^verbatim>\<open>int(os.environ.get(NAME, DEFAULT))\<close>. An
  environment variable is unset, holds text that \<^verbatim>\<open>int\<close> parses, or holds text that
  \<^verbatim>\<open>int\<close> rejects with \<^verbatim>\<open>ValueError\<close>. \<^verbatim>\<open>OLLAMA_TIMEOUT\<close> has no default, so an unset
  variable there is \<^verbatim>\<open>int(None)\<close>, a \<^verbatim>\<open>TypeError\<close>.
\<close>

datatype env_int = Unset | Parses int | Malformed

record environment =
  env_OLLAMA_TIMEOUT :: env_int
  env_CHUNK_SIZE :: env_int
  env_CHUNK_OVERLAP :: env_int
  env_MAX_RETRIEVED_DOCS :: env_int
  env_PORT :: env_int
  env_SESSION_TIMEOUT :: env_int
  env_MAX_SESSION_MESSAGES :: env_int

record config =
  OLLAMA_TIMEOUT :: int
  CHUNK_SIZE :: int
  CHUNK_OVERLAP :: int
  MAX_RETRIEVED_DOCS :: int
  PORT :: int
  SESSION_TIMEOUT :: int
  MAX_SESSION_MESSAGES :: int

fun int_setting :: "env_int \<Rightarrow> int option \<Rightarrow> exn + int" where
  "int_setting (Parses n) d = Inr n"
| "int_setting Malformed d = Inl (PyException ''ValueError'')"
| "int_setting Unset (Some n) = Inr n"
| "int_setting Unset None = Inl (PyException ''TypeError'')"

definition bind_exn :: "exn + 'a \<Rightarrow> ('a \<Rightarrow> exn + 'b) \<Rightarrow> exn + 'b" where
  "bind_exn r f = (case r of Inl e \<Rightarrow> Inl e | Inr v \<Rightarrow> f v)"

text \<open>
  The integer settings, in the order the module assigns them. Nothing compares one
  setting with another: the module has no statement after the assignments that could
  reject a pair of values.
\<close>

definition load_config :: "environment \<Rightarrow> exn + config" where
  "load_config env =
     bind_exn (int_setting (env_OLLAMA_TIMEOUT env) None) (\<lambda>ollama_timeout.
     bind_exn (int_setting (env_CHUNK_SIZE env) (Some 500)) (\<lambda>chunk_size.
     bind_exn (int_setting (env_CHUNK_OVERLAP env) (Some 100)) (\<lambda>chunk_overlap.
     bind_exn (int_setting (env_MAX_RETRIEVED_DOCS env) (Some 3)) (\<lambda>max_docs.
     bind_exn (int_setting (env_PORT env) (Some 5000)) (\<lambda>port.
     bind_exn (int_setting (env_SESSION_TIMEOUT env) (Some 3600)) (\<lambda>session_timeout.
     bind_exn (int_setting (env_MAX_SESSION_MESSAGES env) (Some 20)) (\<lambda>max_messages.
     Inr \<lparr>OLLAMA_TIMEOUT = ollama_timeout, CHUNK_SIZE = chunk_size,
          CHUNK_OVERLAP = chunk_overlap, MAX_RETRIEVED_DOCS = max_docs, PORT = port,
          SESSION_TIMEOUT = session_timeout, MAX_SESSION_MESSAGES = max_messages\<rparr>)))))))"

section \<open>Chunking (rag/embedded.py)\<close>

text \<open>
  \<^verbatim>\<open>str.split()\<close> and \<^verbatim>\<open>str.strip()\<close> cut at whitespace. The model knows the ASCII
  whitespace characters (tab, line feed, vertical tab, form feed, carriage return, the
  four separators 0x1C to 0x1F and the space).
\<close>

definition is_space :: "char \<Rightarrow> bool" where
  "is_space c = (c \<in> set [CHR 0x09, CHR 0x0A, CHR 0x0B, CHR 0x0C, CHR 0x0D,
                            CHR 0x1C, CHR 0x1D, CHR 0x1E, CHR 0x1F, CHR 0x20])"

text \<open>\<^verbatim>\<open>s.split()\<close>: the maximal runs of non-whitespace, \<open>cur\<close> being the run under way.\<close>

fun split_from :: "string \<Rightarrow> string \<Rightarrow> string list" where
  "split_from cur [] = (if cur = [] then [] else [cur])"
| "split_from cur (c # cs) =
     (if is_space c then (if cur = [] then split_from [] cs else cur # split_from [] cs)
      else split_from (cur @ [c]) cs)"

definition py_split :: "string \<Rightarrow> string list" where
  "py_split s = split_from [] s"

definition py_strip :: "string \<Rightarrow> string" where
  "py_strip s = rev (dropWhile is_space (rev (dropWhile is_space s)))"

text \<open>\<^verbatim>\<open>sep.join(ws)\<close>.\<close>

fun py_join :: "string \<Rightarrow> string list \<Rightarrow> string" where
  "py_join sep [] = []"
| "py_join sep [w] = w"
| "py_join sep (w # v # ws) = w @ sep @ py_join sep (v # ws)"

text \<open>
  The \<^verbatim>\<open>while\<close> loop of \<^verbatim>\<open>DocumentEmbedder.chunk_text\<close>, from the cursor \<open>start\<close> with the
  chunks collected so far. The loop need not end, so it is a partial function: \<open>None\<close>
  is the run that never returns.
\<close>

partial_function (option) chunk_loop ::
  "int \<Rightarrow> int \<Rightarrow> string list \<Rightarrow> int \<Rightarrow> string list \<Rightarrow> string list option" where
  "chunk_loop chunk_size chunk_overlap ws start chunks =
     (if start < int (length ws) then
        (let end_pos = start + chunk_size;
             chunk_words = py_slice ws start end_pos;
             chunk = py_join '' '' chunk_words;
             chunks1 = (if py_strip chunk \<noteq> [] then chunks @ [py_strip chunk] else chunks)
         in if end_pos \<ge> int (length ws) then Some chunks1
            else chunk_loop chunk_size chunk_overlap ws (end_pos - chunk_overlap) chunks1)
      else Some chunks)"

definition chunk_text :: "int \<Rightarrow> int \<Rightarrow> string \<Rightarrow> string list option" where
  "chunk_text chunk_size chunk_overlap txt =
     (if txt = [] then Some []
      else chunk_loop chunk_size chunk_overlap (py_split txt) 0 [])"

text \<open>
  Vocabulary of the properties of chunking: a word is a non-empty run without
  whitespace, and a word is covered by a list of chunks when it is one of the words of
  some chunk.
\<close>

definition is_word :: "string \<Rightarrow> bool" where
  "is_word w = (w \<noteq> [] \<and> (\<forall>c\<in>set w. \<not> is_space c))"

definition covered :: "string \<Rightarrow> string list \<Rightarrow> bool" where
  "covered w chunks = (\<exists>c\<in>set chunks. w \<in> set (py_split c))"

section \<open>Vector store (rag/vector\_store.py)\<close>

record chunk =
  doc_text :: string
  doc_source :: string
  chunk_id :: int
  total_chunks :: int

record search_result = chunk +
  similarity_score :: real

subsection \<open>The flat L2 index of the FAISS library\<close>

text \<open>
  The store keeps its vectors in a \<^verbatim>\<open>faiss.IndexFlatL2\<close>, code of a library outside the
  repository. It is modelled as the library documents it: the index holds the vectors in
  insertion order; a search for \<open>k\<close> neighbours demands \<open>k > 0\<close> and a query of the
  index's dimension, ranks the vectors by squared Euclidean distance, and returns exactly
  \<open>k\<close> (distance, label) pairs, filling the places past the stored vectors with the
  label \<open>-1\<close> and the largest single-precision number.
\<close>

record flat_index =
  index_d :: nat
  index_vectors :: "real list list"

definition l2_sqr :: "real list \<Rightarrow> real list \<Rightarrow> real" where
  "l2_sqr x y = sum_list (map (\<lambda>(a, b). (a - b)\<^sup>2) (zip x y))"

definition flt_max :: real where
  "flt_max = 340282346638528859811704183484516925440"

definition faiss_search :: "flat_index \<Rightarrow> real list \<Rightarrow> int \<Rightarrow> exn + (real \<times> int) list" where
  "faiss_search idx q k =
     (if k \<le> 0 \<or> length q \<noteq> index_d idx then Inl (PyException ''AssertionError'')
      else
        (let scored = map (\<lambda>i. (l2_sqr q (index_vectors idx ! i), int i))
                          [0..<length (index_vectors idx)];
             found = take (nat k) (sort_key fst scored)
         in Inr (found @ replicate (nat k - length found) (flt_max, - 1))))"

text \<open>The fields of \<^verbatim>\<open>VectorStore\<close>.\<close>

record vector_store =
  index :: "flat_index option"
  documents :: "chunk list"
  dimension :: "nat option"

subsection \<open>Single-precision arithmetic\<close>

text \<open>
  The distances the index returns are NumPy \<^verbatim>\<open>float32\<close> values, and \<^verbatim>\<open>1 + dist\<close> and
  \<^verbatim>\<open>1 / (1 + dist)\<close> are \<^verbatim>\<open>float32\<close> operations: each yields the exact result rounded to
  the nearest single-precision number, a tie going to the even significand. A
  single-precision number has a significand of 24 bits and an exponent from \<open>-126\<close> to
  \<open>127\<close>; below \<open>2 powi -126\<close> the numbers are the multiples of \<open>2 powi -149\<close>; a
  magnitude of \<open>2 ^ 128 - 2 ^ 103\<close> or more rounds to infinity.
\<close>

text \<open>Rounding to the nearest integer, a tie to the even one.\<close>

definition rne :: "real \<Rightarrow> int" where
  "rne x =
     (let f = \<lfloor>x\<rfloor>; r = x - of_int f
      in if r < 1 / 2 then f else if 1 / 2 < r then f + 1 else if even f then f else f + 1)"

text \<open>
  The exponent of a positive number: the number of halvings that bring it below 2, at
  most 127, or of doublings that bring it up to 1, at most 126.
\<close>

fun exp_up :: "nat \<Rightarrow> real \<Rightarrow> int" where
  "exp_up 0 x = 0"
| "exp_up (Suc n) x = (if x < 2 then 0 else 1 + exp_up n (x / 2))"

fun exp_down :: "nat \<Rightarrow> real \<Rightarrow> int" where
  "exp_down 0 x = 0"
| "exp_down (Suc n) x = (if 1 \<le> x then 0 else exp_down n (2 * x) - 1)"

definition f32_exponent :: "real \<Rightarrow> int" where
  "f32_exponent x = (if 1 \<le> x then exp_up 127 x else exp_down 126 x)"

text \<open>
  The single-precision number nearest to \<open>x\<close>, for a magnitude that does not overflow:
  \<open>x\<close> rounded to a multiple of the spacing at its exponent.
\<close>

definition f32_round :: "real \<Rightarrow> real" where
  "f32_round x =
     (let u = 2 powi (f32_exponent \<bar>x\<bar> - 23)
      in sgn x * of_int (rne (\<bar>x\<bar> / u)) * u)"

definition f32_overflows :: "real \<Rightarrow> bool" where
  "f32_overflows x = (2 ^ 128 - 2 ^ 103 \<le> \<bar>x\<bar>)"

subsection \<open>The store\<close>

text \<open>
  The converted distance, \<^verbatim>\<open>float(1 / (1 + dist))\<close>. \<open>d\<close> is the squared distance of the
  index model; \<^verbatim>\<open>dist\<close> is the single-precision number the index reports for it, infinite
  when it overflows, and then \<^verbatim>\<open>1 + dist\<close> is infinite and the quotient is zero. The sum
  and the quotient are rounded in turn; the conversion to a Python \<^verbatim>\<open>float\<close> is exact.
\<close>

definition similarity :: "real \<Rightarrow> real" where
  "similarity d =
     (if f32_overflows d then 0
      else f32_round (1 / f32_round (1 + f32_round d)))"

definition with_score :: "chunk \<Rightarrow> real \<Rightarrow> search_result" where
  "with_score doc sc =
     \<lparr>doc_text = doc_text doc, doc_source = doc_source doc, chunk_id = chunk_id doc,
      total_chunks = total_chunks doc, similarity_score = sc\<rparr>"

text \<open>\<^verbatim>\<open>xs[i]\<close>: a negative index counts from the end; out of range it raises.\<close>

definition py_index :: "'a list \<Rightarrow> int \<Rightarrow> exn + 'a" where
  "py_index xs i =
     (if i < - int (length xs) \<or> int (length xs) \<le> i then Inl (PyException ''IndexError'')
      else Inr (xs ! nat (if i < 0 then i + int (length xs) else i)))"

text \<open>
  The result loop of \<^verbatim>\<open>VectorStore.search\<close> over the (distance, label) pairs: a label
  below the number of documents indexes the document list, and the copy of the document
  gets the score.
\<close>

fun collect_results :: "chunk list \<Rightarrow> (real \<times> int) list \<Rightarrow> exn + search_result list" where
  "collect_results docs [] = Inr []"
| "collect_results docs ((d, idx) # hits) =
     (if idx < int (length docs) then
        bind_exn (py_index docs idx) (\<lambda>doc.
        bind_exn (collect_results docs hits) (\<lambda>rest.
        Inr (with_score doc (similarity d) # rest)))
      else collect_results docs hits)"

text \<open>
  \<^verbatim>\<open>VectorStore.search\<close>. \<open>embed_texts\<close> is the method of \<^verbatim>\<open>document_embedder\<close>, the embedding
  model behind it being external: it returns one vector per text, or no vector at all
  when the model fails.
\<close>

definition search ::
  "(string list \<Rightarrow> real list list) \<Rightarrow> vector_store \<Rightarrow> string \<Rightarrow> int \<Rightarrow> exn + search_result list" where
  "search embed_texts vs query k =
     (case index vs of
        None \<Rightarrow> Inr []
      | Some idx \<Rightarrow>
          if length (documents vs) = 0 then Inr []
          else
            (let query_embedding = embed_texts [query]
             in if length query_embedding = 0 then Inr []
                else bind_exn
                       (faiss_search idx (hd query_embedding) (min k (int (length (documents vs)))))
                       (collect_results (documents vs))))"

subsection \<open>Restoring the store from disk\<close>

text \<open>
  An artifact on disk is missing, present but unreadable (reading it raises), or holds a
  value. The metadata artifact is a pickled dictionary; either key may be absent from it,
  and the stored dimension may be \<^verbatim>\<open>None\<close>.
\<close>

datatype 'a artifact = Missing | Unreadable | Stored 'a

record metadata =
  md_documents :: "chunk list option"
  md_dimension :: "nat option option"

record disk =
  index_file :: "flat_index artifact"
  metadata_file :: "metadata artifact"

text \<open>
  \<^verbatim>\<open>VectorStore.load\<close>: the returned flag and the store as the call leaves it. Each
  assignment of the source that ran before an exception stays in effect.
\<close>

definition load :: "disk \<Rightarrow> vector_store \<Rightarrow> bool \<times> vector_store" where
  "load d vs =
     (case index_file d of
        Missing \<Rightarrow> (False, vs)
      | Unreadable \<Rightarrow> (False, vs)
      | Stored idx \<Rightarrow>
          (let vs1 = vs\<lparr>index := Some idx\<rparr>
           in case metadata_file d of
                Missing \<Rightarrow> (True, vs1)
              | Unreadable \<Rightarrow> (False, vs1)
              | Stored md \<Rightarrow>
                  (case md_documents md of
                     None \<Rightarrow> (False, vs1)
                   | Some docs \<Rightarrow>
                       (let vs2 = vs1\<lparr>documents := docs\<rparr>
                        in case md_dimension md of
                             None \<Rightarrow> (False, vs2)
                           | Some dm \<Rightarrow> (True, vs2\<lparr>dimension := dm\<rparr>)))))"

text \<open>The two counts the data model relates: stored vectors and chunks.\<close>

definition vector_count :: "vector_store \<Rightarrow> nat" where
  "vector_count vs = (case index vs of None \<Rightarrow> 0 | Some idx \<Rightarrow> length (index_vectors idx))"

definition chunk_count :: "vector_store \<Rightarrow> nat" where
  "chunk_count vs = length (documents vs)"

section \<open>Language-model client (llm/ollama\_client.py)\<close>

text \<open>
  The HTTP backend is external. One request (\<^verbatim>\<open>requests.post\<close>, then
  \<^verbatim>\<open>raise_for_status\<close> and \<^verbatim>\<open>response.json()\<close>) either raises, or yields a JSON
  object whose \<^verbatim>\<open>response\<close> entry is read (\<open>None\<close> when the object has none). The
  backend is a function of the URL, the JSON payload and the timeout.
\<close>

record payload =
  p_model :: string
  p_prompt :: string
  p_stream :: bool
  p_temperature :: real
  p_system :: "string option"
  p_num_predict :: "int option"

datatype http_outcome = Raises exn | Replies "string option"

type_synonym http_backend = "string \<Rightarrow> payload \<Rightarrow> int \<Rightarrow> http_outcome"

record ollama_client =
  base_url :: string
  model :: string
  timeout :: int

text \<open>\<^verbatim>\<open>try: body except Exception as e: handler(e)\<close>.\<close>

definition try_except :: "exn + 'a \<Rightarrow> (exn \<Rightarrow> exn + 'a) \<Rightarrow> exn + 'a" where
  "try_except body handler = (case body of Inl e \<Rightarrow> handler e | Inr v \<Rightarrow> Inr v)"

text \<open>The request shared by both methods: the part of the \<^verbatim>\<open>try\<close> block that can raise.\<close>

definition request_response :: "http_backend \<Rightarrow> ollama_client \<Rightarrow> payload \<Rightarrow> exn + string" where
  "request_response post cl pl =
     (case post (base_url cl @ ''/api/generate'') pl (timeout cl) of
        Raises e \<Rightarrow> Inl e
      | Replies r \<Rightarrow> Inr (case r of None \<Rightarrow> [] | Some t \<Rightarrow> t))"

text \<open>
  \<^verbatim>\<open>OllamaClient.generate\<close>. \<^verbatim>\<open>if system_prompt:\<close> and \<^verbatim>\<open>if max_tokens:\<close> hold for a value
  that is neither \<^verbatim>\<open>None\<close> nor empty (zero).
\<close>

definition generate_payload ::
  "ollama_client \<Rightarrow> string \<Rightarrow> string option \<Rightarrow> real \<Rightarrow> int option \<Rightarrow> payload" where
  "generate_payload cl prompt system_prompt temperature max_tokens =
     (let pl0 = \<lparr>p_model = model cl, p_prompt = prompt, p_stream = False,
                 p_temperature = temperature, p_system = None, p_num_predict = None\<rparr>;
          pl1 = (case system_prompt of
                   Some sp \<Rightarrow> if sp \<noteq> [] then pl0\<lparr>p_system := Some sp\<rparr> else pl0
                 | None \<Rightarrow> pl0)
      in case max_tokens of
           Some n \<Rightarrow> if n \<noteq> 0 then pl1\<lparr>p_num_predict := Some n\<rparr> else pl1
         | None \<Rightarrow> pl1)"

definition generate ::
  "http_backend \<Rightarrow> ollama_client \<Rightarrow> string \<Rightarrow> string option \<Rightarrow> real \<Rightarrow> int option \<Rightarrow> exn + string" where
  "generate post cl prompt system_prompt temperature max_tokens =
     try_except
       (request_response post cl (generate_payload cl prompt system_prompt temperature max_tokens))
       (\<lambda>e. Inr (''Error: Unable to generate response - '' @ exn_str e))"

text \<open>
  The prompt \<^verbatim>\<open>OllamaClient.chat\<close> builds from its messages, each a (role, content)
  pair: only the \<^verbatim>\<open>system\<close> and \<^verbatim>\<open>assistant\<close> roles have a branch.
\<close>

fun chat_prompt :: "(string \<times> string) list \<Rightarrow> string" where
  "chat_prompt [] = []"
| "chat_prompt ((r, c) # msgs) =
     (if r = ''system'' then ''System: '' @ c @ [CHR 0x0A, CHR 0x0A]
      else if r = ''assistant'' then ''Assistant: '' @ c @ [CHR 0x0A, CHR 0x0A]
      else []) @ chat_prompt msgs"

definition chat_payload :: "ollama_client \<Rightarrow> (string \<times> string) list \<Rightarrow> real \<Rightarrow> payload" where
  "chat_payload cl msgs temperature =
     \<lparr>p_model = model cl, p_prompt = py_strip (chat_prompt msgs), p_stream = False,
      p_temperature = temperature, p_system = None, p_num_predict = None\<rparr>"

definition chat ::
  "http_backend \<Rightarrow> ollama_client \<Rightarrow> (string \<times> string) list \<Rightarrow> real \<Rightarrow> exn + string" where
  "chat post cl msgs temperature =
     try_except
       (request_response post cl (chat_payload cl msgs temperature))
       (\<lambda>e. Inr (''Error: Unable to chat - '' @ exn_str e))"

section \<open>Orchestration (app.py)\<close>

subsection \<open>Canned responses\<close>

text \<open>\<^verbatim>\<open>str.lower()\<close> on ASCII letters, and the substring test \<^verbatim>\<open>w in s\<close>.\<close>

definition lower_char :: "char \<Rightarrow> char" where
  "lower_char c =
     (case map_of (zip ''ABCDEFGHIJKLMNOPQRSTUVWXYZ'' ''abcdefghijklmnopqrstuvwxyz'') c of
        Some l \<Rightarrow> l
      | None \<Rightarrow> c)"

definition py_lower :: "string \<Rightarrow> string" where
  "py_lower s = map lower_char s"

definition starts_with :: "string \<Rightarrow> string \<Rightarrow> bool" where
  "starts_with w s = (take (length w) s = w)"

fun contains :: "string \<Rightarrow> string \<Rightarrow> bool" where
  "contains w [] = (w = [])"
| "contains w (c # cs) = (starts_with w (c # cs) \<or> contains w cs)"

definition any_in :: "string list \<Rightarrow> string \<Rightarrow> bool" where
  "any_in ws s = list_ex (\<lambda>w. contains w s) ws"

definition greeting_response :: string where
  "greeting_response =
     ''Hello! I'' @ [CHR 0x27] @ ''m your AI support assistant. How can I help you today?''"

definition capabilities_response :: string where
  "capabilities_response =
     ''I can help you with:\<newline>        \<newline>'' @ [CHR 0xF0, CHR 0x9F, CHR 0x93, CHR 0x8B] @ '' **Support Tasks:**\<newline>- Create support tickets\<newline>- Check order status\<newline>- Answer questions about products and services\<newline>\<newline>'' @ [CHR 0xF0, CHR 0x9F, CHR 0x93, CHR 0x9A] @ '' **Knowledge Base:**\<newline>I have access to documentation about our products, services, and support procedures.\<newline>\<newline>'' @ [CHR 0xF0, CHR 0x9F, CHR 0x92, CHR 0xA1] @ '' **Try asking:**\<newline>- '' @ [CHR 0x22] @ ''What products do you offer?'' @ [CHR 0x22] @ ''\<newline>- '' @ [CHR 0x22] @ ''Check order ORD-001'' @ [CHR 0x22] @ ''\<newline>- '' @ [CHR 0x22] @ ''Create a ticket for billing issue'' @ [CHR 0x22] @ ''\<newline>- '' @ [CHR 0x22] @ ''How do I reset my password?'' @ [CHR 0x22] @ ''\<newline>\<newline>Note: I'' @ [CHR 0x27] @ ''m currently running in fallback mode. For full AI responses, please ensure Ollama is running properly.''"

definition order_service_response :: string where
  "order_service_response =
     ''I can help check your order status! However, I need to connect to order system to get real-time information. Please try again when the AI service is fully available.''"

definition order_id_response :: string where
  "order_id_response =
     ''To check your order status, please provide your order ID (e.g., ORD-001).''"

definition ticket_response :: string where
  "ticket_response =
     ''I can help create a support ticket for you! Please describe your issue and I'' @ [CHR 0x27] @ ''ll create a ticket. However, I need the AI service to be fully available to process this properly.''"

definition products_response :: string where
  "products_response =
     ''Based on our knowledge base, we offer various products and services:\<newline>\<newline>'' @ [CHR 0xF0, CHR 0x9F, CHR 0x96, CHR 0xA5, CHR 0xEF, CHR 0xB8, CHR 0x8F] @ '' **Products:**\<newline>- Laptops and desktops\<newline>- Smartphones and tablets\<newline>- Accessories and peripherals\<newline>\<newline>'' @ [CHR 0xF0, CHR 0x9F, CHR 0x9B, CHR 0xA0, CHR 0xEF, CHR 0xB8, CHR 0x8F] @ '' **Services:**\<newline>- Technical support\<newline>- Order tracking\<newline>- Billing assistance\<newline>- Account management\<newline>\<newline>For specific details about any product or service, please ask when the AI service is fully available.''"

definition default_response :: "string \<Rightarrow> string" where
  "default_response user_message =
     ''I understand you'' @ [CHR 0x27] @ ''re asking about: '' @ [CHR 0x22] @ user_message @ [CHR 0x22] @ ''\<newline>\<newline>However, I'' @ [CHR 0x27] @ ''m currently running in limited mode because the AI service (Ollama) is not responding properly. \<newline>\<newline>**What you can do:**\<newline>1. Try your question again in a few minutes\<newline>2. Check if Ollama is running: '' @ [CHR 0x60] @ ''ollama list'' @ [CHR 0x60] @ ''\<newline>3. Restart Ollama if needed: '' @ [CHR 0x60] @ ''ollama serve'' @ [CHR 0x60] @ ''\<newline>\<newline>For urgent assistance, you can contact our support team directly at support@example.com or call 1-800-SUPPORT.''"

text \<open>\<^verbatim>\<open>generate_fallback_response\<close>; its second argument, the context, is never read.\<close>

definition generate_fallback_response :: "string \<Rightarrow> string \<Rightarrow> string" where
  "generate_fallback_response user_message context =
     (let user_message_lower = py_lower user_message
      in if any_in [''hello'', ''hi'', ''hey'', ''greetings''] user_message_lower
           then greeting_response
         else if any_in [''help'', ''what can you do'', ''capabilities''] user_message_lower
           then capabilities_response
         else if any_in [''order'', ''status'', ''track''] user_message_lower
           then (if contains ''ord-'' user_message_lower then order_service_response
                 else order_id_response)
         else if any_in [''ticket'', ''support'', ''issue'', ''problem''] user_message_lower
           then ticket_response
         else if any_in [''product'', ''service'', ''offer''] user_message_lower
           then products_response
         else default_response user_message)"

subsection \<open>Tool calls\<close>

record tool_call =
  tool :: string
  args :: "(string \<times> string) list"

text \<open>
  \<^verbatim>\<open>re.findall(name\((.*?)\), response, re.DOTALL)\<close>, with the offset of each match: a
  match starts where the text reads \<open>name(\<close> and a closing parenthesis follows
  somewhere; the group is the text up to the first one, and the scan goes on after it.
  \<open>opening\<close> is the name with its parenthesis, \<open>pos\<close> the offset of \<open>s\<close> in the reply.
\<close>

function find_calls :: "string \<Rightarrow> nat \<Rightarrow> string \<Rightarrow> (nat \<times> string) list" where
  "find_calls opening pos s =
     (if s = [] then []
      else if starts_with opening s \<and> CHR 0x29 \<in> set (drop (length opening) s) then
        (let grp = takeWhile (\<lambda>c. c \<noteq> CHR 0x29) (drop (length opening) s)
         in (pos, grp) # find_calls opening (pos + length opening + length grp + 1)
                           (drop (length opening + length grp + 1) s))
      else find_calls opening (pos + 1) (tl s))"
  by pat_completeness auto
termination
  by (relation "measure (\<lambda>(opening, pos, s). length s)") auto

declare find_calls.simps [simp del]

definition findall :: "string \<Rightarrow> string \<Rightarrow> string list" where
  "findall name response = map snd (find_calls (name @ [CHR 0x28]) 0 response)"

text \<open>
  \<^verbatim>\<open>re.search(key=["']([^"']+)["'], match)\<close>: the leftmost place where the key and its
  equals sign, a quote, a non-empty run without quotes and another quote follow one
  another; the group is the run. \<open>pre\<close> is the key with its equals sign.
\<close>

definition is_quote :: "char \<Rightarrow> bool" where
  "is_quote c = (c = CHR 0x22 \<or> c = CHR 0x27)"

definition kv_match :: "string \<Rightarrow> string \<Rightarrow> string option" where
  "kv_match pre s =
     (if starts_with pre s then
        (case drop (length pre) s of
           [] \<Rightarrow> None
         | q # r \<Rightarrow>
             if is_quote q then
               (let v = takeWhile (\<lambda>c. \<not> is_quote c) r;
                    rest = dropWhile (\<lambda>c. \<not> is_quote c) r
                in if v \<noteq> [] \<and> rest \<noteq> [] then Some v else None)
             else None)
      else None)"

fun kv_search :: "string \<Rightarrow> string \<Rightarrow> string option" where
  "kv_search pre [] = None"
| "kv_search pre (c # cs) =
     (case kv_match pre (c # cs) of Some v \<Rightarrow> Some v | None \<Rightarrow> kv_search pre cs)"

text \<open>One key of the argument parser: the substring test, then the search.\<close>

definition parse_key :: "string \<Rightarrow> string \<Rightarrow> (string \<times> string) list" where
  "parse_key key m =
     (if contains (key @ ''='') m then
        (case kv_search (key @ ''='') m of Some v \<Rightarrow> [(key, v)] | None \<Rightarrow> [])
      else [])"

definition parse_args :: "string \<Rightarrow> (string \<times> string) list" where
  "parse_args m =
     (if py_strip m \<noteq> [] then
        parse_key ''description'' m @ parse_key ''priority'' m @ parse_key ''category'' m @
        parse_key ''order_id'' m @ parse_key ''query'' m
      else [])"

definition tool_names :: "string list" where
  "tool_names = [''create_ticket'', ''check_order_status'', ''search_knowledge_base'']"

text \<open>
  \<^verbatim>\<open>extract_tool_calls\<close>: the outer loop over the three patterns, the inner loop over
  the matches of one pattern, each appending to \<^verbatim>\<open>tool_calls\<close>.
\<close>

definition extract_tool_calls :: "string \<Rightarrow> tool_call list" where
  "extract_tool_calls response =
     foldl (\<lambda>tool_calls name.
              foldl (\<lambda>tool_calls m. tool_calls @ [\<lparr>tool = name, args = parse_args m\<rparr>])
                    tool_calls (findall name response))
           [] tool_names"

text \<open>The calls of one tool in a reply, in the order of the scan.\<close>

definition calls_of :: "string \<Rightarrow> string \<Rightarrow> tool_call list" where
  "calls_of name response = map (\<lambda>m. \<lparr>tool = name, args = parse_args m\<rparr>) (findall name response)"

subsection \<open>The response orchestrator\<close>

text \<open>
  The prompt constants of \<^verbatim>\<open>llm/prompts.py\<close> are parameters: the system prompt, and the
  two templates as functions of the values \<^verbatim>\<open>str.format\<close> fills in.
\<close>

record prompts =
  SYSTEM_PROMPT :: string
  rag_prompt :: "string \<Rightarrow> string \<Rightarrow> string"
  chat_with_context :: "string \<Rightarrow> string \<Rightarrow> string \<Rightarrow> string"

definition model_error_message :: string where
  "model_error_message =
     ''I'' @ [CHR 0x27] @ ''m experiencing technical difficulties. Please try again or contact human support.''"

text \<open>
  \<^verbatim>\<open>execute_tool_call\<close> catches its own exceptions and returns text; the ticket and order
  stores behind it are external, so it is a parameter acting on their state \<open>'w\<close>.
\<close>

fun run_tools :: "('w \<Rightarrow> tool_call \<Rightarrow> string \<times> 'w) \<Rightarrow> tool_call list \<Rightarrow> 'w \<Rightarrow> string list \<times> 'w" where
  "run_tools exec_tool [] w = ([], w)"
| "run_tools exec_tool (tc # tcs) w =
     (let (r, w1) = exec_tool w tc; (rs, w2) = run_tools exec_tool tcs w1 in (r # rs, w2))"

text \<open>
  \<^verbatim>\<open>generate_response\<close> over an arbitrary chat function and search function, returning the
  reply with the session dictionary and the tools' state as the call leaves them. The
  session object is shared with the dictionary, so each \<^verbatim>\<open>add_message\<close> shows there. The
  clock is read as \<open>now\<close> throughout one call.
\<close>

definition generate_response_with ::
  "((string \<times> string) list \<Rightarrow> exn + string) \<Rightarrow> (string \<Rightarrow> exn + search_result list) \<Rightarrow>
   ('w \<Rightarrow> tool_call \<Rightarrow> string \<times> 'w) \<Rightarrow> config \<Rightarrow> prompts \<Rightarrow> real \<Rightarrow>
   string \<Rightarrow> string \<Rightarrow> session_manager \<times> 'w \<Rightarrow> string \<times> session_manager \<times> 'w" where
  "generate_response_with chat_fn search_fn exec_tool cfg pr now sid user_message st =
     (let (mgr, w) = st;
          (s0, mgr1) = get_or_create_session (SESSION_TIMEOUT cfg) now now sid mgr;
          s1 = add_message (MAX_SESSION_MESSAGES cfg) now now ''user'' user_message s0;
          mgr2 = mgr1(sid \<mapsto> s1);
          finish = (\<lambda>response w'.
            (response,
             mgr2(sid \<mapsto> add_message (MAX_SESSION_MESSAGES cfg) now now ''assistant'' response s1),
             w'))
      in case search_fn user_message of
           Inl e \<Rightarrow> (model_error_message, mgr2, w)
         | Inr context_docs \<Rightarrow>
             (let context = (if context_docs \<noteq> []
                             then py_join [CHR 0x0A, CHR 0x0A] (map doc_text context_docs)
                             else []);
                  recent_messages = get_recent_messages 10 s1;
                  history = concat (map (\<lambda>msg. role msg @ '': '' @ content msg @ [CHR 0x0A])
                                        (butlast recent_messages));
                  prompt = (if context \<noteq> [] \<and> history \<noteq> []
                              then chat_with_context pr (py_strip history) context user_message
                            else if context \<noteq> [] then rag_prompt pr context user_message
                            else user_message)
              in case chat_fn [(''system'', SYSTEM_PROMPT pr), (''user'', prompt)] of
                   Inl e \<Rightarrow> (generate_fallback_response user_message context, mgr2, w)
                 | Inr response \<Rightarrow>
                     (let tool_calls = extract_tool_calls response
                      in if tool_calls \<noteq> [] then
                           (let (tool_results, w1) = run_tools exec_tool tool_calls w
                            in if tool_results \<noteq> [] then
                                 (let tool_context = py_join [CHR 0x0A, CHR 0x0A] tool_results;
                                      final_prompt =
                                        prompt @ ''\<newline>\<newline>Tool Results:\<newline>'' @ tool_context @
                                        ''\<newline>\<newline>Please provide a helpful response based on these tool results.''
                                  in case chat_fn [(''system'', SYSTEM_PROMPT pr), (''user'', final_prompt)] of
                                       Inl e \<Rightarrow>
                                         (generate_fallback_response user_message context, mgr2, w1)
                                     | Inr response2 \<Rightarrow> finish response2 w1)
                               else finish response w1)
                         else finish response w)))"

text \<open>
  \<^verbatim>\<open>generate_response\<close> as the application wires it: the chat function is
  \<^verbatim>\<open>ollama_client.chat\<close> at temperature 0.7, the search is \<^verbatim>\<open>vector_store.search\<close> with
  its default \<open>k\<close>.
\<close>

definition generate_response ::
  "http_backend \<Rightarrow> ollama_client \<Rightarrow> (string list \<Rightarrow> real list list) \<Rightarrow> vector_store \<Rightarrow>
   ('w \<Rightarrow> tool_call \<Rightarrow> string \<times> 'w) \<Rightarrow> config \<Rightarrow> prompts \<Rightarrow> real \<Rightarrow>
   string \<Rightarrow> string \<Rightarrow> session_manager \<times> 'w \<Rightarrow> string \<times> session_manager \<times> 'w" where
  "generate_response post cl embed_texts vs exec_tool cfg pr now sid user_message st =
     generate_response_with
       (\<lambda>msgs. chat post cl msgs (7 / 10))
       (\<lambda>q. search embed_texts vs q (MAX_RETRIEVED_DOCS cfg))
       exec_tool cfg pr now sid user_message st"

section \<open>Properties of session memory\<close>

lemma length_trimmed: "2 \<le> cap \<Longrightarrow> length (trimmed cap xs) = min (length xs) cap"
  by (auto simp: trimmed_def)

lemma add_message_trimmed:
  assumes "2 \<le> cap" "messages s = trimmed (nat cap) xs"
  shows "messages (add_message cap t t' r c s) =
         trimmed (nat cap) (xs @ [\<lparr>role = r, content = c, timestamp = t\<rparr>])"
proof (cases "length xs < nat cap")
  case True
  then show ?thesis using assms
    by (auto simp: add_message_def trimmed_def Let_def)
next
  case False
  note not_less = this
  show ?thesis
  proof (cases "length xs = nat cap")
    case True
    then show ?thesis using assms
      by (auto simp: add_message_def trimmed_def Let_def py_slice_from_def py_bound_def)
  next
    case False
    with not_less have "length xs > nat cap" by simp
    then show ?thesis using assms
      apply (auto simp: add_message_def trimmed_def Let_def py_slice_from_def py_bound_def)
       apply (metis hd_append2 linorder_not_le take_Nil take_all_iff)
      apply (simp add: Suc_diff_le)
      done
  qed
qed

lemma add_messages_trimmed:
  assumes "2 \<le> cap"
  shows "messages s = trimmed (nat cap) xs \<Longrightarrow>
         messages (add_messages cap cs s) = trimmed (nat cap) (xs @ map message_of cs)"
proof (induction cs arbitrary: s xs)
  case Nil
  then show ?case by simp
next
  case (Cons a cs)
  obtain t t' r c where a: "a = (t, t', r, c)" by (cases a) auto
  have "messages (add_message cap t t' r c s) = trimmed (nat cap) (xs @ [message_of a])"
    using add_message_trimmed [OF assms Cons.prems] by (simp add: a message_of_def)
  from Cons.IH [OF this] show ?case by (simp add: a)
qed

text \<open>
  With a cap of at least two, a fresh session that received more messages than the cap
  holds exactly \<open>cap\<close> of them: the first one appended, then the last \<open>cap - 1\<close>.
\<close>

lemma trim_invariant:
  assumes "2 \<le> cap" "messages s = []" "int (length cs) > cap"
  shows "length (messages (add_messages cap cs s)) = nat cap
       \<and> hd (messages (add_messages cap cs s)) = message_of (hd cs)
       \<and> drop 1 (messages (add_messages cap cs s)) =
           map message_of (drop (length cs - (nat cap - 1)) cs)"
proof -
  have "messages s = trimmed (nat cap) []" using assms by (simp add: trimmed_def)
  from add_messages_trimmed [OF assms(1) this]
  have m: "messages (add_messages cap cs s) = trimmed (nat cap) (map message_of cs)" by simp
  have ne: "cs \<noteq> []" using assms by auto
  show ?thesis using assms ne unfolding m
    by (auto simp: trimmed_def hd_map drop_map)
qed

text \<open>
  Claim C2: for a session with cap \<open>M\<close>, after appending \<open>N > M\<close> messages the history has
  length exactly \<open>M\<close>, starts with the first message ever appended and ends with the last
  \<open>M - 1\<close>. With the cap 1 the slice \<^verbatim>\<open>self.messages[-(1-1):]\<close> is \<^verbatim>\<open>self.messages[0:]\<close>, the
  whole list: two appends to a fresh session leave three messages, the first one twice.
\<close>

theorem add_message_cap_one_grows:
  "messages (add_messages 1 [(1, 1, ''user'', ''a''), (2, 2, ''assistant'', ''b'')]
      \<lparr>session_id = ''s'', messages = [], created_at = 0, last_activity = 0\<rparr>)
   = [\<lparr>role = ''user'', content = ''a'', timestamp = 1\<rparr>,
      \<lparr>role = ''user'', content = ''a'', timestamp = 1\<rparr>,
      \<lparr>role = ''assistant'', content = ''b'', timestamp = 2\<rparr>]"
  by (simp add: add_message_def py_slice_from_def py_bound_def)

text \<open>
  Claim C6: a session whose last activity is older than the timeout is deleted and
  reported absent by \<^verbatim>\<open>get_session\<close>, and \<^verbatim>\<open>get_or_create_session\<close> answers with a fresh
  session of the same id and an empty history, stored under that id.
\<close>

theorem expired_session_replaced:
  assumes "mgr sid = Some s" and "now - last_activity s > real_of_int tmo"
  shows "get_session tmo now sid mgr = (None, mgr(sid := None))
       \<and> get_or_create_session tmo now now' sid mgr =
           (\<lparr>session_id = sid, messages = [], created_at = now', last_activity = now'\<rparr>,
            mgr(sid \<mapsto> \<lparr>session_id = sid, messages = [], created_at = now', last_activity = now'\<rparr>))"
  using assms
  by (auto simp: get_session_def get_or_create_session_def create_session_def is_expired_def
      remove_session_def Let_def)

theorem expired_session_replaced_witness:
  "[''u1'' \<mapsto> \<lparr>session_id = ''u1'',
                  messages = [\<lparr>role = ''user'', content = ''hi'', timestamp = 0\<rparr>],
                  created_at = 0, last_activity = 0\<rparr>] ''u1''
     = Some \<lparr>session_id = ''u1'',
             messages = [\<lparr>role = ''user'', content = ''hi'', timestamp = 0\<rparr>],
             created_at = 0, last_activity = 0\<rparr>
   \<and> (3601 :: real) - 0 > real_of_int 3600
   \<and> get_session 3600 3601 ''u1''
        [''u1'' \<mapsto> \<lparr>session_id = ''u1'',
                     messages = [\<lparr>role = ''user'', content = ''hi'', timestamp = 0\<rparr>],
                     created_at = 0, last_activity = 0\<rparr>]
       = (None, Map.empty)
   \<and> get_or_create_session 3600 3601 3602 ''u1''
        [''u1'' \<mapsto> \<lparr>session_id = ''u1'',
                     messages = [\<lparr>role = ''user'', content = ''hi'', timestamp = 0\<rparr>],
                     created_at = 0, last_activity = 0\<rparr>]
       = (\<lparr>session_id = ''u1'', messages = [], created_at = 3602, last_activity = 3602\<rparr>,
          [''u1'' \<mapsto> \<lparr>session_id = ''u1'', messages = [], created_at = 3602,
                       last_activity = 3602\<rparr>])"
  using expired_session_replaced
    [where mgr = "[''u1'' \<mapsto> \<lparr>session_id = ''u1'',
                  messages = [\<lparr>role = ''user'', content = ''hi'', timestamp = 0\<rparr>],
                  created_at = 0, last_activity = 0\<rparr>]"
       and sid = "''u1''"
       and s = "\<lparr>session_id = ''u1'',
             messages = [\<lparr>role = ''user'', content = ''hi'', timestamp = 0\<rparr>],
             created_at = 0, last_activity = 0\<rparr>"
       and now = 3601 and tmo = 3600 and now' = 3602]
  by simp

section \<open>Properties of chunking\<close>

subsection \<open>Splitting, joining and stripping\<close>

lemma split_from_nonspace:
  "\<forall>c\<in>set w. \<not> is_space c \<Longrightarrow> split_from cur (w @ rest) = split_from (cur @ w) rest"
  by (induction w arbitrary: cur) auto

lemma split_from_words:
  "w \<in> set (split_from cur s) \<Longrightarrow> (\<And>c. c \<in> set cur \<Longrightarrow> \<not> is_space c) \<Longrightarrow> is_word w"
proof (induction s arbitrary: cur)
  case Nil
  then show ?case by (auto simp: is_word_def split: if_splits)
next
  case (Cons a s)
  show ?case
  proof (cases "is_space a")
    case True
    then have "w = cur \<and> cur \<noteq> [] \<or> w \<in> set (split_from [] s)"
      using Cons.prems(1) by (auto split: if_splits)
    then show ?thesis
    proof
      assume "w = cur \<and> cur \<noteq> []"
      then show ?thesis using Cons.prems(2) by (auto simp: is_word_def)
    next
      assume "w \<in> set (split_from [] s)"
      then show ?thesis by (rule Cons.IH) simp
    qed
  next
    case False
    then have "w \<in> set (split_from (cur @ [a]) s)" using Cons.prems(1) by simp
    then show ?thesis
      by (rule Cons.IH) (use False Cons.prems(2) in auto)
  qed
qed

lemma py_split_words: "w \<in> set (py_split s) \<Longrightarrow> is_word w"
  using split_from_words [of w "[]" s] by (simp add: py_split_def)

lemma split_from_spaces: "\<forall>c\<in>set s. is_space c \<Longrightarrow> split_from [] s = []"
  by (induction s) auto

lemma space_is_space: "is_space (CHR '' '')"
  by (simp add: is_space_def)

lemma split_join:
  "\<forall>w\<in>set ws. is_word w \<Longrightarrow> split_from [] (py_join '' '' ws) = ws"
proof (induction "'' ''" ws rule: py_join.induct)
  case 1
  then show ?case by simp
next
  case (2 w)
  then show ?case using split_from_nonspace [of w "[]" "[]"] by (simp add: is_word_def)
next
  case (3 w v ws)
  then show ?case
    using split_from_nonspace [of w "[]" "'' '' @ py_join '' '' (v # ws)"]
    by (simp add: is_word_def space_is_space)
qed

lemma join_nonempty:
  "\<forall>w\<in>set ws. is_word w \<Longrightarrow> ws \<noteq> [] \<Longrightarrow>
     py_join '' '' ws \<noteq> [] \<and> \<not> is_space (hd (py_join '' '' ws)) \<and> \<not> is_space (last (py_join '' '' ws))"
proof (induction "'' ''" ws rule: py_join.induct)
  case 1
  then show ?case by simp
next
  case (2 w)
  then show ?case by (cases w) (auto simp: is_word_def)
next
  case (3 w v ws)
  then show ?case by (cases w) (auto simp: is_word_def)
qed

lemma strip_id:
  "s \<noteq> [] \<Longrightarrow> \<not> is_space (hd s) \<Longrightarrow> \<not> is_space (last s) \<Longrightarrow> py_strip s = s"
proof -
  assume a: "s \<noteq> []" "\<not> is_space (hd s)" "\<not> is_space (last s)"
  have 1: "dropWhile is_space s = s" using a by (cases s) auto
  have "hd (rev s) = last s" using a by (simp add: hd_rev)
  then have "\<not> is_space (hd (rev s))" using a by simp
  moreover have "rev s \<noteq> []" using a by simp
  ultimately have 2: "dropWhile is_space (rev s) = rev s" by (cases "rev s") auto
  show ?thesis by (simp add: py_strip_def 1 2)
qed

lemma strip_join:
  assumes "\<forall>w\<in>set ws. is_word w" "ws \<noteq> []"
  shows "py_strip (py_join '' '' ws) = py_join '' '' ws"
  using join_nonempty [OF assms] strip_id by blast

subsection \<open>The loop\<close>

text \<open>
  The cursor moves by \<open>chunk_size - chunk_overlap\<close> in each round, so with a smaller
  overlap the distance to the end of the words shrinks and the loop returns.
\<close>

lemma chunk_loop_terminates:
  assumes "ov < sz"
  shows "\<exists>cs. chunk_loop sz ov ws start chunks = Some cs"
proof (induction "nat (int (length ws) - start)" arbitrary: start chunks rule: less_induct)
  case less
  show ?case
  proof (cases "start < int (length ws)")
    case False
    then show ?thesis by (subst chunk_loop.simps) simp
  next
    case True
    show ?thesis
    proof (cases "int (length ws) \<le> start + sz")
      case True
      then show ?thesis by (subst chunk_loop.simps) (simp add: Let_def)
    next
      case False
      have "nat (int (length ws) - (start + sz - ov)) < nat (int (length ws) - start)"
        using assms True by linarith
      from less [OF this] show ?thesis
        using True False by (subst chunk_loop.simps) (simp add: Let_def)
    qed
  qed
qed

lemma chunk_text_terminates:
  assumes "ov < sz"
  shows "\<exists>cs. chunk_text sz ov doc = Some cs"
  using chunk_loop_terminates [OF assms] by (auto simp: chunk_text_def)

text \<open>
  With an overlap that is not smaller, a cursor at or below zero stays there while more
  words than one window remain: no run from such a state returns.
\<close>

lemma chunk_loop_Some_not_stuck:
  assumes "chunk_loop sz ov ws start chunks = Some y"
  shows "\<not> (sz \<le> ov \<and> sz < int (length ws) \<and> ws \<noteq> [] \<and> start \<le> 0)"
proof (rule chunk_loop.raw_induct
    [where P = "\<lambda>sz ov ws start chunks y. \<not> (sz \<le> ov \<and> sz < int (length ws) \<and> ws \<noteq> [] \<and> start \<le> 0)",
     OF _ assms], goal_cases)
  case (1 loop sz ov ws start chunks y)
  show ?case
  proof
    assume a: "sz \<le> ov \<and> sz < int (length ws) \<and> ws \<noteq> [] \<and> start \<le> 0"
    then have "start < int (length ws)" by (cases ws) auto
    moreover have "\<not> int (length ws) \<le> start + sz" using a by linarith
    ultimately obtain c1 where "loop sz ov ws (start + sz - ov) c1 = Some y"
      using 1(2) by (auto simp: Let_def split: if_splits)
    from 1(1) [OF this] show False using a by auto
  qed
qed

lemma chunk_loop_diverges:
  assumes "sz \<le> ov" "sz < int (length ws)" "ws \<noteq> []" "start \<le> 0"
  shows "chunk_loop sz ov ws start chunks = None"
  using chunk_loop_Some_not_stuck [of sz ov ws start chunks] assms
  by (cases "chunk_loop sz ov ws start chunks") auto

text \<open>
  Coverage: with \<open>0 \<le> chunk_overlap < chunk_size\<close> every round emits the window at
  the cursor, and the next cursor is not past the end of that window.
\<close>

lemma covered_mono: "covered w chunks \<Longrightarrow> covered w (chunks @ extra)"
  by (auto simp: covered_def)

lemma slice_nonneg:
  assumes "0 \<le> start" "start < int (length ws)" "0 < sz"
  shows "py_slice ws start (start + sz) = take (nat sz) (drop (nat start) ws)"
  using assms by (auto simp: py_slice_def py_bound_def Let_def min_def nat_add_distrib)

lemma slice_covers:
  assumes "0 \<le> start" "start < int (length ws)" "0 < sz" "nat start \<le> i" "i < length ws" "int i < start + sz"
  shows "ws ! i \<in> set (py_slice ws start (start + sz))"
proof -
  have "ws ! i = take (nat sz) (drop (nat start) ws) ! (i - nat start)"
    using assms by (simp add: nth_take)
  moreover have "i - nat start < length (take (nat sz) (drop (nat start) ws))"
    using assms by auto
  ultimately show ?thesis
    unfolding slice_nonneg [OF assms(1-3)] by (metis nth_mem)
qed

lemma slice_subset: "set (py_slice ws i j) \<subseteq> set ws"
  by (auto simp: py_slice_def Let_def dest: in_set_takeD in_set_dropD)

lemma chunk_covers_slice:
  assumes "\<forall>w\<in>set ws'. is_word w" "w \<in> set ws'"
  shows "py_strip (py_join '' '' ws') \<noteq> [] \<and> w \<in> set (py_split (py_strip (py_join '' '' ws')))"
proof -
  have ne: "ws' \<noteq> []" using assms by auto
  show ?thesis
    using strip_join [OF assms(1) ne] join_nonempty [OF assms(1) ne] split_join [OF assms(1)] assms(2)
    by (simp add: py_split_def)
qed

lemma chunk_loop_covers:
  assumes "0 \<le> ov" "ov < sz" "\<forall>w\<in>set ws. is_word w"
  shows "0 \<le> start \<Longrightarrow> \<forall>i<length ws. int i < start \<longrightarrow> covered (ws ! i) chunks \<Longrightarrow>
         chunk_loop sz ov ws start chunks = Some cs \<Longrightarrow> i < length ws \<Longrightarrow> covered (ws ! i) cs"
proof (induction "nat (int (length ws) - start)" arbitrary: start chunks rule: less_induct)
  case less
  show ?case
  proof (cases "start < int (length ws)")
    case False
    then have "cs = chunks" using less.prems(3) by (subst (asm) chunk_loop.simps) simp
    then show ?thesis using less.prems False by auto
  next
    case True
    define sl where "sl = py_slice ws start (start + sz)"
    define chunk where "chunk = py_strip (py_join '' '' sl)"
    have slw: "\<forall>w\<in>set sl. is_word w" using assms(3) slice_subset [of ws] by (auto simp: sl_def)
    have "ws ! nat start \<in> set sl"
      unfolding sl_def using True less.prems(1) assms by (intro slice_covers) auto
    then have chunk_ne: "chunk \<noteq> []" using chunk_covers_slice [OF slw] by (auto simp: chunk_def)
    define chunks1 where "chunks1 = chunks @ [chunk]"
    have cov1: "covered (ws ! j) chunks1" if "j < length ws" "int j < start + sz" for j
    proof (cases "int j < start")
      case True
      then show ?thesis using less.prems(2) that by (auto simp: chunks1_def covered_mono)
    next
      case False
      then have "ws ! j \<in> set sl"
        unfolding sl_def using \<open>start < int (length ws)\<close> less.prems(1) assms that
        by (intro slice_covers) auto
      then have "ws ! j \<in> set (py_split chunk)"
        using chunk_covers_slice [OF slw] by (auto simp: chunk_def)
      then show ?thesis by (auto simp: covered_def chunks1_def)
    qed
    show ?thesis
    proof (cases "int (length ws) \<le> start + sz")
      case True
      then have "cs = chunks1"
        using less.prems(3) \<open>start < int (length ws)\<close> chunk_ne
        by (subst (asm) chunk_loop.simps) (simp add: Let_def sl_def chunk_def chunks1_def)
      then show ?thesis using cov1 [of i] True less.prems(4) by auto
    next
      case False
      then have rec: "chunk_loop sz ov ws (start + sz - ov) chunks1 = Some cs"
        using less.prems(3) \<open>start < int (length ws)\<close> chunk_ne
        by (subst (asm) chunk_loop.simps) (simp add: Let_def sl_def chunk_def chunks1_def)
      have m: "nat (int (length ws) - (start + sz - ov)) < nat (int (length ws) - start)"
        using assms \<open>start < int (length ws)\<close> by linarith
      have inv: "\<forall>j<length ws. int j < start + sz - ov \<longrightarrow> covered (ws ! j) chunks1"
        using cov1 assms by auto
      show ?thesis
        by (rule less.hyps [OF m _ inv rec less.prems(4)]) (use assms less.prems(1) in linarith)
    qed
  qed
qed

subsection \<open>The configuration precondition\<close>

lemma load_config_no_guard:
  "load_config env = Inr cfg \<Longrightarrow>
   load_config (env\<lparr>env_CHUNK_SIZE := Parses sz, env_CHUNK_OVERLAP := Parses ov\<rparr>)
     = Inr (cfg\<lparr>CHUNK_SIZE := sz, CHUNK_OVERLAP := ov\<rparr>)"
  by (auto simp: load_config_def bind_exn_def split: sum.splits)

lemma split_a_b: "py_split ''a b'' = [''a'', ''b'']"
  by (simp add: py_split_def is_space_def)

lemma split_a_b_c: "py_split ''a b c'' = [''a'', ''b'', ''c'']"
  by (simp add: py_split_def is_space_def)

text \<open>
  Claim C4, as the code has it: loading the configuration enforces no relation between
  \<^verbatim>\<open>CHUNK_SIZE\<close> and \<^verbatim>\<open>CHUNK_OVERLAP\<close> (a start that succeeds also succeeds with any two
  integers in their place); with an overlap below the size \<^verbatim>\<open>chunk_text\<close> returns for every
  text; with an overlap of at least the size it never returns on a text of more words
  than the size.
\<close>

theorem chunk_overlap_precondition:
  "(load_config env = Inr cfg \<longrightarrow>
      load_config (env\<lparr>env_CHUNK_SIZE := Parses sz, env_CHUNK_OVERLAP := Parses ov\<rparr>)
        = Inr (cfg\<lparr>CHUNK_SIZE := sz, CHUNK_OVERLAP := ov\<rparr>))
   \<and> (ov < sz \<longrightarrow> (\<exists>cs. chunk_text sz ov doc = Some cs))
   \<and> (sz \<le> ov \<and> sz < int (length (py_split doc)) \<and> py_split doc \<noteq> [] \<longrightarrow>
        chunk_text sz ov doc = None)"
proof (intro conjI impI)
  assume "load_config env = Inr cfg"
  then show "load_config (env\<lparr>env_CHUNK_SIZE := Parses sz, env_CHUNK_OVERLAP := Parses ov\<rparr>)
        = Inr (cfg\<lparr>CHUNK_SIZE := sz, CHUNK_OVERLAP := ov\<rparr>)"
    by (rule load_config_no_guard)
next
  assume "ov < sz"
  then show "\<exists>cs. chunk_text sz ov doc = Some cs" by (rule chunk_text_terminates)
next
  assume a: "sz \<le> ov \<and> sz < int (length (py_split doc)) \<and> py_split doc \<noteq> []"
  then have "doc \<noteq> []" by (auto simp: py_split_def)
  then show "chunk_text sz ov doc = None"
    using a chunk_loop_diverges [of sz ov "py_split doc" 0 "[]"] by (simp add: chunk_text_def)
qed

theorem chunk_overlap_precondition_witness:
  "load_config \<lparr>env_OLLAMA_TIMEOUT = Parses 30, env_CHUNK_SIZE = Unset, env_CHUNK_OVERLAP = Unset,
        env_MAX_RETRIEVED_DOCS = Unset, env_PORT = Unset, env_SESSION_TIMEOUT = Unset,
        env_MAX_SESSION_MESSAGES = Unset\<rparr>
     = Inr \<lparr>OLLAMA_TIMEOUT = 30, CHUNK_SIZE = 500, CHUNK_OVERLAP = 100, MAX_RETRIEVED_DOCS = 3,
            PORT = 5000, SESSION_TIMEOUT = 3600, MAX_SESSION_MESSAGES = 20\<rparr>
   \<and> load_config \<lparr>env_OLLAMA_TIMEOUT = Parses 30, env_CHUNK_SIZE = Parses 2, env_CHUNK_OVERLAP = Parses 7,
        env_MAX_RETRIEVED_DOCS = Unset, env_PORT = Unset, env_SESSION_TIMEOUT = Unset,
        env_MAX_SESSION_MESSAGES = Unset\<rparr>
     = Inr \<lparr>OLLAMA_TIMEOUT = 30, CHUNK_SIZE = 2, CHUNK_OVERLAP = 7, MAX_RETRIEVED_DOCS = 3,
            PORT = 5000, SESSION_TIMEOUT = 3600, MAX_SESSION_MESSAGES = 20\<rparr>
   \<and> (1 :: int) < 2 \<and> (\<exists>cs. chunk_text 2 1 ''a b c'' = Some cs)
   \<and> (2 :: int) \<le> 7 \<and> 2 < int (length (py_split ''a b c'')) \<and> py_split ''a b c'' \<noteq> []
   \<and> chunk_text 2 7 ''a b c'' = None"
proof -
  have cfg: "load_config \<lparr>env_OLLAMA_TIMEOUT = Parses 30, env_CHUNK_SIZE = Unset, env_CHUNK_OVERLAP = Unset,
        env_MAX_RETRIEVED_DOCS = Unset, env_PORT = Unset, env_SESSION_TIMEOUT = Unset,
        env_MAX_SESSION_MESSAGES = Unset\<rparr>
     = Inr \<lparr>OLLAMA_TIMEOUT = 30, CHUNK_SIZE = 500, CHUNK_OVERLAP = 100, MAX_RETRIEVED_DOCS = 3,
            PORT = 5000, SESSION_TIMEOUT = 3600, MAX_SESSION_MESSAGES = 20\<rparr>"
    by (simp add: load_config_def bind_exn_def)
  show ?thesis
    using cfg
      chunk_overlap_precondition
        [where env = "\<lparr>env_OLLAMA_TIMEOUT = Parses 30, env_CHUNK_SIZE = Unset, env_CHUNK_OVERLAP = Unset,
            env_MAX_RETRIEVED_DOCS = Unset, env_PORT = Unset, env_SESSION_TIMEOUT = Unset,
            env_MAX_SESSION_MESSAGES = Unset\<rparr>"
          and cfg = "\<lparr>OLLAMA_TIMEOUT = 30, CHUNK_SIZE = 500, CHUNK_OVERLAP = 100, MAX_RETRIEVED_DOCS = 3,
            PORT = 5000, SESSION_TIMEOUT = 3600, MAX_SESSION_MESSAGES = 20\<rparr>"
          and sz = 2 and ov = 7 and doc = "''a b c''"]
      chunk_overlap_precondition
        [where env = "\<lparr>env_OLLAMA_TIMEOUT = Parses 30, env_CHUNK_SIZE = Unset, env_CHUNK_OVERLAP = Unset,
            env_MAX_RETRIEVED_DOCS = Unset, env_PORT = Unset, env_SESSION_TIMEOUT = Unset,
            env_MAX_SESSION_MESSAGES = Unset\<rparr>"
          and cfg = "\<lparr>OLLAMA_TIMEOUT = 30, CHUNK_SIZE = 500, CHUNK_OVERLAP = 100, MAX_RETRIEVED_DOCS = 3,
            PORT = 5000, SESSION_TIMEOUT = 3600, MAX_SESSION_MESSAGES = 20\<rparr>"
          and sz = 2 and ov = 1 and doc = "''a b c''"]
    by (simp add: split_a_b_c)
qed

text \<open>
  Claim C4 as stated, that a violated precondition fails the start, is false: the
  settings \<^verbatim>\<open>CHUNK_SIZE=1\<close>, \<^verbatim>\<open>CHUNK_OVERLAP=1\<close> load, and chunking the two words of
  \<^verbatim>\<open>a b\<close> under them never returns.
\<close>

theorem startup_accepts_overlap_not_below_size:
  "load_config \<lparr>env_OLLAMA_TIMEOUT = Parses 30, env_CHUNK_SIZE = Parses 1, env_CHUNK_OVERLAP = Parses 1,
        env_MAX_RETRIEVED_DOCS = Unset, env_PORT = Unset, env_SESSION_TIMEOUT = Unset,
        env_MAX_SESSION_MESSAGES = Unset\<rparr>
     = Inr \<lparr>OLLAMA_TIMEOUT = 30, CHUNK_SIZE = 1, CHUNK_OVERLAP = 1, MAX_RETRIEVED_DOCS = 3,
            PORT = 5000, SESSION_TIMEOUT = 3600, MAX_SESSION_MESSAGES = 20\<rparr>
   \<and> \<not> (1 :: int) < 1
   \<and> chunk_text 1 1 ''a b'' = None"
proof -
  have "chunk_text 1 1 ''a b'' = None"
    using chunk_loop_diverges [of 1 1 "py_split ''a b''" 0 "[]"]
    by (simp add: chunk_text_def split_a_b)
  then show ?thesis by (simp add: load_config_def bind_exn_def)
qed

subsection \<open>Coverage of the words\<close>

text \<open>
  Claim C5, with the overlap also non-negative: for \<open>0 \<le> overlap < size\<close> the result of
  \<^verbatim>\<open>chunk_text\<close> exists and is a function of size, overlap and text alone; every word of
  the text is a word of some chunk; and a text of whitespace only (or no text) has no
  chunks.
\<close>

theorem chunk_text_covers:
  assumes "0 \<le> ov" "ov < sz"
  shows "\<exists>cs. chunk_text sz ov doc = Some cs
            \<and> (\<forall>w\<in>set (py_split doc). covered w cs)
            \<and> ((\<forall>c\<in>set doc. is_space c) \<longrightarrow> cs = [])"
proof -
  obtain cs where cs: "chunk_text sz ov doc = Some cs"
    using chunk_text_terminates [OF assms(2)] by blast
  have cov: "covered w cs" if w: "w \<in> set (py_split doc)" for w
  proof -
    have "doc \<noteq> []" using w by (auto simp: py_split_def)
    then have loop: "chunk_loop sz ov (py_split doc) 0 [] = Some cs"
      using cs by (simp add: chunk_text_def)
    obtain i where i: "i < length (py_split doc)" "py_split doc ! i = w"
      using w by (auto simp: in_set_conv_nth)
    have words: "\<forall>w\<in>set (py_split doc). is_word w" using py_split_words by blast
    have "covered (py_split doc ! i) cs"
      by (rule chunk_loop_covers [OF assms words _ _ loop i(1)]) auto
    then show ?thesis using i by simp
  qed
  have "cs = []" if "\<forall>c\<in>set doc. is_space c"
  proof -
    have "py_split doc = []" using that by (simp add: py_split_def split_from_spaces)
    then show ?thesis using cs
      by (simp add: chunk_text_def chunk_loop.simps split: if_splits)
  qed
  then show ?thesis using cs cov by blast
qed

theorem chunk_text_covers_witness:
  "(0 :: int) \<le> 1 \<and> (1 :: int) < 2
   \<and> chunk_text 2 1 ''a b c'' = Some [''a b'', ''b c'']
   \<and> py_split ''a b c'' = [''a'', ''b'', ''c'']
   \<and> covered ''a'' [''a b'', ''b c''] \<and> covered ''b'' [''a b'', ''b c''] \<and> covered ''c'' [''a b'', ''b c'']
   \<and> chunk_text 2 1 ''  '' = Some []"
proof -
  have e: "chunk_text 2 1 ''a b c'' = Some [''a b'', ''b c'']"
    by (simp add: chunk_text_def py_split_def is_space_def chunk_loop.simps py_slice_def
        py_bound_def py_strip_def Let_def)
  have s: "\<forall>c\<in>set ''  ''. is_space c" by (simp add: is_space_def)
  show ?thesis
    using e s chunk_text_covers [where ov = 1 and sz = 2 and doc = "''a b c''"]
      chunk_text_covers [where ov = 1 and sz = 2 and doc = "''  ''"]
    by (auto simp: split_a_b_c)
qed

text \<open>
  Claim C5 as stated, for every overlap below the size, is false for a negative
  overlap: the cursor then jumps over words. With size 2 and overlap \<open>-1\<close> the text
  \<^verbatim>\<open>a b c\<close> has the single chunk \<^verbatim>\<open>a b\<close>, and the word \<^verbatim>\<open>c\<close> is in no chunk.
\<close>

theorem negative_overlap_skips_word:
  "(- 1 :: int) < 2
   \<and> chunk_text 2 (- 1) ''a b c'' = Some [''a b'']
   \<and> ''c'' \<in> set (py_split ''a b c'')
   \<and> \<not> covered ''c'' [''a b'']"
  by (simp add: chunk_text_def py_split_def is_space_def chunk_loop.simps py_slice_def
      py_bound_def py_strip_def Let_def covered_def)

section \<open>Properties of the vector store\<close>

subsection \<open>Restoring\<close>

text \<open>
  Claim C3, as the code has it: \<^verbatim>\<open>load\<close> reports success exactly when the vector artifact
  is readable and the metadata artifact is either missing or readable with both of its
  keys. With the metadata missing it succeeds, installs the index and leaves the
  documents and the dimension as they were; with complete metadata it installs the stored
  documents and dimension. It compares no counts.
\<close>

theorem load_success_cases:
  "(fst (load d vs) \<longleftrightarrow>
      (\<exists>idx. index_file d = Stored idx \<and>
         (metadata_file d = Missing \<or>
          (\<exists>md docs dm. metadata_file d = Stored md \<and> md_documents md = Some docs \<and> md_dimension md = Some dm))))
   \<and> (index_file d = Stored idx \<and> metadata_file d = Missing \<longrightarrow>
        load d vs = (True, vs\<lparr>index := Some idx\<rparr>))
   \<and> (index_file d = Stored idx \<and> metadata_file d = Stored md \<and> md_documents md = Some docs \<and> md_dimension md = Some dm \<longrightarrow>
        load d vs = (True, vs\<lparr>index := Some idx, documents := docs, dimension := dm\<rparr>))"
  by (auto simp: load_def Let_def split: artifact.splits option.splits)

theorem load_success_cases_witness:
  "load \<lparr>index_file = Stored \<lparr>index_d = 1, index_vectors = [[0], [1]]\<rparr>, metadata_file = Missing\<rparr>
          \<lparr>index = None, documents = [], dimension = None\<rparr>
       = (True, \<lparr>index = Some \<lparr>index_d = 1, index_vectors = [[0], [1]]\<rparr>, documents = [],
                 dimension = None\<rparr>)
   \<and> load \<lparr>index_file = Stored \<lparr>index_d = 1, index_vectors = [[0]]\<rparr>,
            metadata_file = Stored \<lparr>md_documents = Some [\<lparr>doc_text = ''billing cycle'',
                doc_source = ''faq.md'', chunk_id = 0, total_chunks = 1\<rparr>],
              md_dimension = Some (Some 1)\<rparr>\<rparr>
          \<lparr>index = None, documents = [], dimension = None\<rparr>
       = (True, \<lparr>index = Some \<lparr>index_d = 1, index_vectors = [[0]]\<rparr>,
                 documents = [\<lparr>doc_text = ''billing cycle'', doc_source = ''faq.md'', chunk_id = 0,
                                total_chunks = 1\<rparr>],
                 dimension = Some 1\<rparr>)
   \<and> \<not> fst (load \<lparr>index_file = Missing, metadata_file = Missing\<rparr>
          \<lparr>index = None, documents = [], dimension = None\<rparr>)"
  using load_success_cases
    [where d = "\<lparr>index_file = Stored \<lparr>index_d = 1, index_vectors = [[0], [1]]\<rparr>, metadata_file = Missing\<rparr>"
       and idx = "\<lparr>index_d = 1, index_vectors = [[0], [1]]\<rparr>"
       and vs = "\<lparr>index = None, documents = [], dimension = None\<rparr>"]
    load_success_cases
    [where d = "\<lparr>index_file = Stored \<lparr>index_d = 1, index_vectors = [[0]]\<rparr>,
            metadata_file = Stored \<lparr>md_documents = Some [\<lparr>doc_text = ''billing cycle'',
                doc_source = ''faq.md'', chunk_id = 0, total_chunks = 1\<rparr>],
              md_dimension = Some (Some 1)\<rparr>\<rparr>"
       and idx = "\<lparr>index_d = 1, index_vectors = [[0]]\<rparr>"
       and md = "\<lparr>md_documents = Some [\<lparr>doc_text = ''billing cycle'',
                doc_source = ''faq.md'', chunk_id = 0, total_chunks = 1\<rparr>],
              md_dimension = Some (Some 1)\<rparr>"
       and docs = "[\<lparr>doc_text = ''billing cycle'', doc_source = ''faq.md'', chunk_id = 0,
                     total_chunks = 1\<rparr>]"
       and dm = "Some 1"
       and vs = "\<lparr>index = None, documents = [], dimension = None\<rparr>"]
    load_success_cases
    [where d = "\<lparr>index_file = Missing, metadata_file = Missing\<rparr>"
       and vs = "\<lparr>index = None, documents = [], dimension = None\<rparr>"]
  by simp

text \<open>
  Claim C3 as stated, that \<^verbatim>\<open>load\<close> fails when the metadata artifact is missing beside a
  present vector artifact, is false: on a fresh store with an index of two vectors on
  disk and no metadata, \<^verbatim>\<open>load\<close> returns \<^verbatim>\<open>True\<close> and leaves two vectors with no chunk.
\<close>

theorem load_without_metadata_succeeds:
  "load \<lparr>index_file = Stored \<lparr>index_d = 1, index_vectors = [[0], [1]]\<rparr>, metadata_file = Missing\<rparr>
        \<lparr>index = None, documents = [], dimension = None\<rparr>
   = (True, \<lparr>index = Some \<lparr>index_d = 1, index_vectors = [[0], [1]]\<rparr>, documents = [], dimension = None\<rparr>)
   \<and> vector_count (snd (load \<lparr>index_file = Stored \<lparr>index_d = 1, index_vectors = [[0], [1]]\<rparr>, metadata_file = Missing\<rparr>
        \<lparr>index = None, documents = [], dimension = None\<rparr>)) = 2
   \<and> chunk_count (snd (load \<lparr>index_file = Stored \<lparr>index_d = 1, index_vectors = [[0], [1]]\<rparr>, metadata_file = Missing\<rparr>
        \<lparr>index = None, documents = [], dimension = None\<rparr>)) = 0"
  by (simp add: load_def vector_count_def chunk_count_def)

subsection \<open>Searching\<close>

lemma length_collect_results:
  "collect_results docs hits = Inr rs \<Longrightarrow> length rs \<le> length hits"
proof (induction hits arbitrary: rs)
  case Nil
  then show ?case by simp
next
  case (Cons h hits)
  obtain d idx where h: "h = (d, idx)" by (cases h)
  show ?case
  proof (cases "idx < int (length docs)")
    case False
    then have "collect_results docs hits = Inr rs" using Cons.prems by (simp add: h)
    from Cons.IH [OF this] show ?thesis by simp
  next
    case True
    then obtain rest where r: "collect_results docs hits = Inr rest" "length rs = Suc (length rest)"
      using Cons.prems by (auto simp: h bind_exn_def split: if_splits sum.splits)
    from Cons.IH [OF r(1)] r(2) show ?thesis by simp
  qed
qed

lemma length_faiss_search:
  "faiss_search idx q k = Inr hits \<Longrightarrow> length hits = nat k"
  by (auto simp: faiss_search_def Let_def split: if_splits)




subsection \<open>Rounding to single precision\<close>










lemma f32_round_0: "f32_round 0 = 0"
  by (simp add: f32_round_def)

lemma f32_round_1: "f32_round 1 = 1"
  by (simp add: f32_round_def f32_exponent_def rne_def eval_nat_numeral Let_def)





lemma similarity_0: "similarity 0 = 1"
  by (simp add: similarity_def f32_overflows_def f32_round_0 f32_round_1)











lemma similarity_at_4: "similarity 4 = 13421773 / 67108864"
  by (simp add: similarity_def f32_overflows_def f32_round_def f32_exponent_def rne_def
      eval_nat_numeral Let_def)





subsection \<open>Scores of the results\<close>

text \<open>
  A store of two chunks whose vectors lie at squared distance 4 and 0 from the query
  vector: the nearer chunk comes first, and the score of the farther one is the
  single-precision number nearest to one fifth.
\<close>

lemma search_example:
  "search (\<lambda>ts. map (\<lambda>t. [1]) ts)
      \<lparr>index = Some \<lparr>index_d = 1, index_vectors = [[3], [1]]\<rparr>,
       documents = [\<lparr>doc_text = ''billing cycle'', doc_source = ''faq.md'', chunk_id = 0, total_chunks = 2\<rparr>,
                    \<lparr>doc_text = ''reset password'', doc_source = ''faq.md'', chunk_id = 1, total_chunks = 2\<rparr>],
       dimension = Some 1\<rparr> ''password'' 3
   = Inr [\<lparr>doc_text = ''reset password'', doc_source = ''faq.md'', chunk_id = 1, total_chunks = 2, similarity_score = 1\<rparr>,
          \<lparr>doc_text = ''billing cycle'', doc_source = ''faq.md'', chunk_id = 0, total_chunks = 2, similarity_score = 13421773 / 67108864\<rparr>]"
  by (simp add: search_def faiss_search_def l2_sqr_def bind_exn_def py_index_def with_score_def
      similarity_0 similarity_at_4 Let_def)

text \<open>
  Claim C8: \<^verbatim>\<open>search\<close> asks the index for \<open>min(k, number of chunks)\<close> neighbours, so a
  search that returns has at most that many results (none for \<open>k \<le> 0\<close>), and it returns
  the empty list whenever the index is uninitialised or the store has no chunk.
\<close>

theorem search_clamped:
  "(search embed_texts vs query k = Inr rs \<longrightarrow> length rs \<le> nat (min k (int (chunk_count vs))))
   \<and> (index vs = None \<or> chunk_count vs = 0 \<longrightarrow> search embed_texts vs query k = Inr [])"
  by (auto simp: search_def chunk_count_def Let_def bind_exn_def
      split: option.splits if_splits sum.splits
      dest!: length_collect_results length_faiss_search)

theorem search_clamped_witness:
  "search (\<lambda>ts. map (\<lambda>t. [1]) ts)
      \<lparr>index = Some \<lparr>index_d = 1, index_vectors = [[3], [1]]\<rparr>,
       documents = [\<lparr>doc_text = ''billing cycle'', doc_source = ''faq.md'', chunk_id = 0, total_chunks = 2\<rparr>,
                    \<lparr>doc_text = ''reset password'', doc_source = ''faq.md'', chunk_id = 1, total_chunks = 2\<rparr>],
       dimension = Some 1\<rparr> ''password'' 3
     = Inr [\<lparr>doc_text = ''reset password'', doc_source = ''faq.md'', chunk_id = 1, total_chunks = 2, similarity_score = 1\<rparr>,
            \<lparr>doc_text = ''billing cycle'', doc_source = ''faq.md'', chunk_id = 0, total_chunks = 2, similarity_score = 13421773 / 67108864\<rparr>]
   \<and> (2 :: nat) \<le> nat (min 3 (int (chunk_count
        \<lparr>index = Some \<lparr>index_d = 1, index_vectors = [[3], [1]]\<rparr>,
         documents = [\<lparr>doc_text = ''billing cycle'', doc_source = ''faq.md'', chunk_id = 0, total_chunks = 2\<rparr>,
                      \<lparr>doc_text = ''reset password'', doc_source = ''faq.md'', chunk_id = 1, total_chunks = 2\<rparr>],
         dimension = Some 1\<rparr>)))
   \<and> index \<lparr>index = None, documents = [], dimension = None\<rparr> = None
   \<and> search (\<lambda>ts. map (\<lambda>t. [1]) ts) \<lparr>index = None, documents = [], dimension = None\<rparr> ''password'' 3 = Inr []"
  using search_example
    search_clamped
      [where embed_texts = "\<lambda>ts. map (\<lambda>t. [1]) ts"
         and vs = "\<lparr>index = Some \<lparr>index_d = 1, index_vectors = [[3], [1]]\<rparr>,
             documents = [\<lparr>doc_text = ''billing cycle'', doc_source = ''faq.md'', chunk_id = 0, total_chunks = 2\<rparr>,
                          \<lparr>doc_text = ''reset password'', doc_source = ''faq.md'', chunk_id = 1, total_chunks = 2\<rparr>],
             dimension = Some 1\<rparr>"
         and query = "''password''" and k = 3
         and rs = "[\<lparr>doc_text = ''reset password'', doc_source = ''faq.md'', chunk_id = 1, total_chunks = 2, similarity_score = 1\<rparr>,
            \<lparr>doc_text = ''billing cycle'', doc_source = ''faq.md'', chunk_id = 0, total_chunks = 2, similarity_score = 13421773 / 67108864\<rparr>]"]
    search_clamped
      [where embed_texts = "\<lambda>ts. map (\<lambda>t. [1]) ts"
         and vs = "\<lparr>index = None, documents = [], dimension = None\<rparr>"
         and query = "''password''" and k = 3]
  by simp






section \<open>Properties of the language-model client\<close>

text \<open>
  Claim C10: \<^verbatim>\<open>generate\<close> and \<^verbatim>\<open>chat\<close> return a string for every input and every
  backend, never an exception; when the request raises an exception \<open>e\<close>, the string is
  the method's error prefix followed by \<open>str(e)\<close>, which begins with \<^verbatim>\<open>Error:\<close>.
\<close>

theorem client_calls_never_raise:
  "(\<exists>s. generate post cl prompt sp tmp mt = Inr s)
   \<and> (\<exists>s. chat post cl msgs tmp = Inr s)
   \<and> (post (base_url cl @ ''/api/generate'') (generate_payload cl prompt sp tmp mt) (timeout cl) = Raises e
        \<longrightarrow> generate post cl prompt sp tmp mt = Inr (''Error: Unable to generate response - '' @ exn_str e)
            \<and> starts_with ''Error:'' (''Error: Unable to generate response - '' @ exn_str e))
   \<and> (post (base_url cl @ ''/api/generate'') (chat_payload cl msgs tmp) (timeout cl) = Raises e
        \<longrightarrow> chat post cl msgs tmp = Inr (''Error: Unable to chat - '' @ exn_str e)
            \<and> starts_with ''Error:'' (''Error: Unable to chat - '' @ exn_str e))"
  by (auto simp: generate_def chat_def try_except_def request_response_def starts_with_def
      split: http_outcome.splits option.splits)

theorem client_calls_never_raise_witness:
  "chat (\<lambda>url pl t. Raises (PyException ''timed out''))
        \<lparr>base_url = ''http://localhost:11434'', model = ''m'', timeout = 30\<rparr>
        [(''system'', ''be kind'')] (7 / 10)
     = Inr ''Error: Unable to chat - timed out''
   \<and> generate (\<lambda>url pl t. Raises (PyException ''timed out''))
        \<lparr>base_url = ''http://localhost:11434'', model = ''m'', timeout = 30\<rparr>
        ''hello'' None (7 / 10) None
     = Inr ''Error: Unable to generate response - timed out''
   \<and> starts_with ''Error:'' ''Error: Unable to chat - timed out''
   \<and> starts_with ''Error:'' ''Error: Unable to generate response - timed out''"
  using client_calls_never_raise
    [where post = "\<lambda>url pl t. Raises (PyException ''timed out'')"
       and cl = "\<lparr>base_url = ''http://localhost:11434'', model = ''m'', timeout = 30\<rparr>"
       and msgs = "[(''system'', ''be kind'')]" and tmp = "7 / 10"
       and prompt = "''hello''" and sp = None and mt = None
       and e = "PyException ''timed out''"]
  by simp

section \<open>Properties of the orchestration\<close>

subsection \<open>Order of the extracted tool calls\<close>

lemma foldl_append_map: "foldl (\<lambda>acc m. acc @ [f m]) acc ms = acc @ map f ms"
  by (induction ms arbitrary: acc) auto

lemma extract_grouped:
  "extract_tool_calls r =
     calls_of ''create_ticket'' r @ calls_of ''check_order_status'' r @ calls_of ''search_knowledge_base'' r"
  by (simp add: extract_tool_calls_def tool_names_def calls_of_def foldl_append_map)

lemma tool_calls_of: "c \<in> set (calls_of name r) \<Longrightarrow> tool c = name"
  by (auto simp: calls_of_def)

lemma find_calls_offsets:
  "(p, g) \<in> set (find_calls opn pos s) \<Longrightarrow>
     pos \<le> p \<and> starts_with (opn @ g @ [CHR 0x29]) (drop (p - pos) s)"
proof (induction opn pos s rule: find_calls.induct)
  case (1 opn pos s)
  show ?case
  proof (cases "s = []")
    case True
    then show ?thesis using 1(3) by (simp add: find_calls.simps)
  next
    case False
    note ne = this
    show ?thesis
    proof (cases "starts_with opn s \<and> CHR 0x29 \<in> set (drop (length opn) s)")
      case True
      define grp where "grp = takeWhile (\<lambda>c. c \<noteq> CHR 0x29) (drop (length opn) s)"
      have mem: "(p, g) = (pos, grp) \<or>
            (p, g) \<in> set (find_calls opn (pos + length opn + length grp + 1)
                             (drop (length opn + length grp + 1) s))"
        using 1(3) ne True by (subst (asm) find_calls.simps) (simp add: grp_def Let_def)
      have here: "starts_with (opn @ grp @ [CHR 0x29]) s"
      proof -
        have "drop (length opn) s = grp @ dropWhile (\<lambda>c. c \<noteq> CHR 0x29) (drop (length opn) s)"
          by (simp add: grp_def)
        moreover have "dropWhile (\<lambda>c. c \<noteq> CHR 0x29) (drop (length opn) s) \<noteq> []"
          using True by (auto simp: dropWhile_eq_Nil_conv)
        then have "hd (dropWhile (\<lambda>c. c \<noteq> CHR 0x29) (drop (length opn) s)) = CHR 0x29"
          using hd_dropWhile [of "\<lambda>c. c \<noteq> CHR 0x29" "drop (length opn) s"] by auto
        ultimately obtain rest where "drop (length opn) s = grp @ CHR 0x29 # rest"
          by (metis \<open>dropWhile (\<lambda>c. c \<noteq> CHR 0x29) (drop (length opn) s) \<noteq> []\<close> list.collapse)
        moreover have "s = opn @ drop (length opn) s"
          using True by (metis append_take_drop_id starts_with_def)
        ultimately have "s = (opn @ grp @ [CHR 0x29]) @ rest" by simp
        then show ?thesis unfolding starts_with_def by (metis append_eq_conv_conj)
      qed
      from mem show ?thesis
      proof
        assume "(p, g) = (pos, grp)"
        then show ?thesis using here by simp
      next
        assume a: "(p, g) \<in> set (find_calls opn (pos + length opn + length grp + 1)
                             (drop (length opn + length grp + 1) s))"
        from 1(1) [OF ne True grp_def a]
        have "pos + length opn + length grp + 1 \<le> p"
          and "starts_with (opn @ g @ [CHR 0x29])
                 (drop (p - (pos + length opn + length grp + 1)) (drop (length opn + length grp + 1) s))"
          by auto
        moreover have "p - (pos + length opn + length grp + 1) + (length opn + length grp + 1) = p - pos"
          using \<open>pos + length opn + length grp + 1 \<le> p\<close> by simp
        ultimately show ?thesis by (simp del: drop_drop add: drop_drop [of _ _ s])
      qed
    next
      case False
      then have a: "(p, g) \<in> set (find_calls opn (pos + 1) (tl s))"
        using 1(3) ne by (subst (asm) find_calls.simps) auto
      from 1(2) [OF ne False a] have "pos + 1 \<le> p" "starts_with (opn @ g @ [CHR 0x29]) (drop (p - (pos + 1)) (tl s))"
        by auto
      moreover have "tl s = drop 1 s" by (simp add: drop_Suc)
      moreover have "p - (pos + 1) + 1 = p - pos" using \<open>pos + 1 \<le> p\<close> by simp
      ultimately show ?thesis by (simp del: drop_drop add: drop_drop [of _ _ s])
    qed
  qed
qed

lemma find_calls_sorted: "sorted_wrt (<) (map fst (find_calls opn pos s))"
proof (induction opn pos s rule: find_calls.induct)
  case (1 opn pos s)
  show ?case
  proof (cases "s = []")
    case True
    then show ?thesis by (simp add: find_calls.simps)
  next
    case False
    note ne = this
    show ?thesis
    proof (cases "starts_with opn s \<and> CHR 0x29 \<in> set (drop (length opn) s)")
      case True
      define grp where "grp = takeWhile (\<lambda>c. c \<noteq> CHR 0x29) (drop (length opn) s)"
      have eq: "find_calls opn pos s = (pos, grp) #
            find_calls opn (pos + length opn + length grp + 1)
                             (drop (length opn + length grp + 1) s)"
        using ne True by (subst find_calls.simps) (simp add: grp_def Let_def)
      have "\<forall>x\<in>set (find_calls opn (pos + length opn + length grp + 1)
                             (drop (length opn + length grp + 1) s)). pos < fst x"
        using find_calls_offsets by fastforce
      then show ?thesis using 1(1) [OF ne True grp_def] by (simp add: eq)
    next
      case False
      then have "find_calls opn pos s = find_calls opn (pos + 1) (tl s)"
        using ne by (subst find_calls.simps) auto
      then show ?thesis using 1(2) [OF ne False] by simp
    qed
  qed
qed

text \<open>
  Claim C7: the extracted calls are the \<^verbatim>\<open>create_ticket\<close> calls, then the
  \<^verbatim>\<open>check_order_status\<close> calls, then the \<^verbatim>\<open>search_knowledge_base\<close> calls, whatever their
  places in the reply, so every \<^verbatim>\<open>create_ticket\<close> call stands before every
  \<^verbatim>\<open>check_order_status\<close> call; and the calls of one tool follow the scan from left to
  right: they are the matches in the order found, at strictly increasing offsets, each
  offset a place where the reply reads the name, the parenthesised group and its closing
  parenthesis.
\<close>

theorem extract_tool_calls_grouped:
  "extract_tool_calls r =
     calls_of ''create_ticket'' r @ calls_of ''check_order_status'' r @
     calls_of ''search_knowledge_base'' r
   \<and> (\<forall>i j. i < length (extract_tool_calls r) \<and> j < length (extract_tool_calls r)
           \<and> tool (extract_tool_calls r ! i) = ''create_ticket''
           \<and> tool (extract_tool_calls r ! j) = ''check_order_status'' \<longrightarrow> i < j)
   \<and> calls_of name r =
       map (\<lambda>(p, m). \<lparr>tool = name, args = parse_args m\<rparr>) (find_calls (name @ [CHR 0x28]) 0 r)
   \<and> sorted_wrt (<) (map fst (find_calls (name @ [CHR 0x28]) 0 r))
   \<and> (\<forall>(p, m)\<in>set (find_calls (name @ [CHR 0x28]) 0 r).
         starts_with (name @ [CHR 0x28] @ m @ [CHR 0x29]) (drop p r))"
proof (intro conjI allI impI)
  show g: "extract_tool_calls r =
     calls_of ''create_ticket'' r @ calls_of ''check_order_status'' r @
     calls_of ''search_knowledge_base'' r"
    by (rule extract_grouped)
  show "calls_of name r =
       map (\<lambda>(p, m). \<lparr>tool = name, args = parse_args m\<rparr>) (find_calls (name @ [CHR 0x28]) 0 r)"
    by (simp add: calls_of_def findall_def split_def)
  show "sorted_wrt (<) (map fst (find_calls (name @ [CHR 0x28]) 0 r))"
    by (rule find_calls_sorted)
  show "\<forall>(p, m)\<in>set (find_calls (name @ [CHR 0x28]) 0 r).
         starts_with (name @ [CHR 0x28] @ m @ [CHR 0x29]) (drop p r)"
    using find_calls_offsets [of _ _ "name @ [CHR 0x28]" 0 r] by auto
  fix i j
  assume a: "i < length (extract_tool_calls r) \<and> j < length (extract_tool_calls r)
           \<and> tool (extract_tool_calls r ! i) = ''create_ticket''
           \<and> tool (extract_tool_calls r ! j) = ''check_order_status''"
  let ?A = "calls_of ''create_ticket'' r"
  let ?B = "calls_of ''check_order_status'' r @ calls_of ''search_knowledge_base'' r"
  have res: "extract_tool_calls r = ?A @ ?B" using g by simp
  have i: "i < length ?A"
  proof (rule ccontr)
    assume "\<not> i < length ?A"
    then have "extract_tool_calls r ! i = ?B ! (i - length ?A)" "i - length ?A < length ?B"
      using a unfolding res by (auto simp: nth_append)
    then have "extract_tool_calls r ! i \<in> set ?B" by (metis nth_mem)
    then have "tool (extract_tool_calls r ! i) \<noteq> ''create_ticket''"
      by (auto dest: tool_calls_of)
    then show False using a by simp
  qed
  have j: "\<not> j < length ?A"
  proof
    assume "j < length ?A"
    then have "extract_tool_calls r ! j \<in> set ?A" unfolding res by (simp add: nth_append)
    then have "tool (extract_tool_calls r ! j) = ''create_ticket''" by (rule tool_calls_of)
    then show False using a by simp
  qed
  from i j show "i < j" by simp
qed

theorem extract_tool_calls_grouped_witness:
  "extract_tool_calls (''check_order_status(order_id='' @ [CHR 0x22] @ ''ORD-001'' @ [CHR 0x22] @
                       '') and create_ticket(priority='' @ [CHR 0x27] @ ''high'' @ [CHR 0x27] @ '')'')
     = [\<lparr>tool = ''create_ticket'', args = [(''priority'', ''high'')]\<rparr>,
        \<lparr>tool = ''check_order_status'', args = [(''order_id'', ''ORD-001'')]\<rparr>]
   \<and> find_calls ''check_order_status('' 0
        (''check_order_status(order_id='' @ [CHR 0x22] @ ''ORD-001'' @ [CHR 0x22] @
         '') and create_ticket(priority='' @ [CHR 0x27] @ ''high'' @ [CHR 0x27] @ '')'')
       = [(0, ''order_id='' @ [CHR 0x22] @ ''ORD-001'' @ [CHR 0x22])]
   \<and> find_calls ''create_ticket('' 0
        (''check_order_status(order_id='' @ [CHR 0x22] @ ''ORD-001'' @ [CHR 0x22] @
         '') and create_ticket(priority='' @ [CHR 0x27] @ ''high'' @ [CHR 0x27] @ '')'')
       = [(43, ''priority='' @ [CHR 0x27] @ ''high'' @ [CHR 0x27])]"
proof -
  let ?r = "''check_order_status(order_id='' @ [CHR 0x22] @ ''ORD-001'' @ [CHR 0x22] @
            '') and create_ticket(priority='' @ [CHR 0x27] @ ''high'' @ [CHR 0x27] @ '')''"
  have grouped: "extract_tool_calls ?r =
      calls_of ''create_ticket'' ?r @ calls_of ''check_order_status'' ?r @
      calls_of ''search_knowledge_base'' ?r"
    using extract_tool_calls_grouped [where r = ?r and name = "''create_ticket''"]
    by (rule conjunct1)
  have order: "find_calls ''check_order_status('' 0 ?r
       = [(0, ''order_id='' @ [CHR 0x22] @ ''ORD-001'' @ [CHR 0x22])]"
    by (simp add: find_calls.simps starts_with_def)
  have ticket: "find_calls ''create_ticket('' 0 ?r
       = [(43, ''priority='' @ [CHR 0x27] @ ''high'' @ [CHR 0x27])]"
    by (simp add: find_calls.simps starts_with_def)
  have "extract_tool_calls ?r
     = [\<lparr>tool = ''create_ticket'', args = [(''priority'', ''high'')]\<rparr>,
        \<lparr>tool = ''check_order_status'', args = [(''order_id'', ''ORD-001'')]\<rparr>]"
    unfolding grouped
    by (simp add: calls_of_def findall_def find_calls.simps parse_args_def parse_key_def
        kv_match_def is_quote_def py_strip_def is_space_def starts_with_def Let_def)
  then show ?thesis using order ticket by simp
qed

subsection \<open>The fallback when the backend is down\<close>

text \<open>
  \<^verbatim>\<open>chat\<close> never raises, so the two handlers of \<^verbatim>\<open>generate_response\<close> that call
  \<^verbatim>\<open>generate_fallback_response\<close> are never entered; had the chat function raised, the
  message \<^verbatim>\<open>hello\<close> would have been answered with the greeting.
\<close>

lemma chat_never_raises: "chat post cl msgs tmp \<noteq> Inl e"
  by (auto simp: chat_def try_except_def request_response_def split: http_outcome.splits)

lemma fallback_hello: "generate_fallback_response ''hello'' ctx = greeting_response"
  by (simp add: generate_fallback_response_def py_lower_def lower_char_def any_in_def starts_with_def)

lemma fallback_branch_greets:
  "fst (generate_response_with (\<lambda>msgs. Inl e) (\<lambda>q. Inr docs) exec_tool cfg pr now sid ''hello'' st)
     = greeting_response"
  by (simp add: generate_response_with_def Let_def split_def fallback_hello)

lemma no_tool_call_in_error_text: "extract_tool_calls ''Error: Unable to chat - Connection refused'' = []"
  by (simp add: extract_tool_calls_def tool_names_def findall_def find_calls.simps starts_with_def)

text \<open>
  Claim C1: with a backend that raises on every call, \<^verbatim>\<open>generate_response\<close> answers
  \<^verbatim>\<open>hello\<close> with the greeting. On a backend whose every request raises
  \<^verbatim>\<open>Connection refused\<close>, with an empty store and no session yet, the reply is instead the
  error text of \<^verbatim>\<open>chat\<close>, which is not the greeting.
\<close>

theorem generate_response_backend_down:
  "fst (generate_response (\<lambda>url pl t. Raises (PyException ''Connection refused'')) cl embed_texts
      \<lparr>index = None, documents = [], dimension = None\<rparr> exec_tool
      \<lparr>OLLAMA_TIMEOUT = 30, CHUNK_SIZE = 500, CHUNK_OVERLAP = 100, MAX_RETRIEVED_DOCS = 3,
           PORT = 5000, SESSION_TIMEOUT = 3600, MAX_SESSION_MESSAGES = 20\<rparr>
      pr 0 ''s1'' ''hello'' (Map.empty, w))
     = ''Error: Unable to chat - Connection refused''
   \<and> ''Error: Unable to chat - Connection refused'' \<noteq> greeting_response"
  by (simp add: generate_response_def generate_response_with_def get_or_create_session_def
      get_session_def create_session_def add_message_def search_def chat_def try_except_def
      request_response_def no_tool_call_in_error_text Let_def split_def greeting_response_def)

end
